theory Spec2Isabelle
  imports Complex_Main
begin

section \<open>JavaScript values\<close>

text \<open>
  The adapters work on untyped JSON-like payloads, so the model has one type of
  JavaScript values. A number is a finite double (carried as the rational it denotes) or
  NaN; the infinities are not needed, no path of the modelled code produces one. An
  object is its list of properties in insertion order. A \<open>string\<close> stands for the
  sequence of code units of the JavaScript string.
\<close>

datatype jsnum = Fin rat | NaN

datatype jsval =
    JUndefined
  | JNull
  | JBool bool
  | JNum jsnum
  | JStr string
  | JArr "jsval list"
  | JObj "(string \<times> jsval) list"

text \<open>
  What the code can fail with: a \<open>TypeError\<close> of the runtime (a property read of
  \<open>undefined\<close> or \<open>null\<close>, a call of a method the value does not have), an
  \<open>Error\<close> built with a message, or a rejection handed over by a library or SDK call.
\<close>

datatype error = TypeError | Error string | External string

text \<open>
  A promise-returning method either returns a promise that resolves or rejects, or throws
  before it returns one.
\<close>

datatype 'a outcome = Resolved 'a | Rejected error | Thrown error

text \<open>ToBoolean: \<open>undefined\<close>, \<open>null\<close>, \<open>false\<close>, \<open>0\<close>, \<open>NaN\<close> and \<open>''\<close> are falsy.\<close>

fun truthy :: "jsval \<Rightarrow> bool" where
  "truthy JUndefined = False"
| "truthy JNull = False"
| "truthy (JBool b) = b"
| "truthy (JNum n) = (n \<noteq> NaN \<and> n \<noteq> Fin 0)"
| "truthy (JStr s) = (s \<noteq> [])"
| "truthy (JArr xs) = True"
| "truthy (JObj kvs) = True"

text \<open>The operators \<open>a || b\<close> and \<open>a && b\<close> on values that are already evaluated.\<close>

definition js_or :: "jsval \<Rightarrow> jsval \<Rightarrow> jsval" where
  "js_or a b = (if truthy a then a else b)"

definition js_and :: "jsval \<Rightarrow> jsval \<Rightarrow> jsval" where
  "js_and a b = (if truthy a then b else a)"

text \<open>
  A property read that cannot fail: \<open>R.path\<close> one level deep, and \<open>v.k\<close> where \<open>v\<close>
  is known not to be \<open>undefined\<close> or \<open>null\<close>. None of the names the code reads
  (\<open>text\<close>, \<open>type\<close>, \<open>mimetype\<close>, ...) is a built-in property of a string, a number, a
  boolean or an array, so only objects answer.
\<close>

fun get_prop :: "jsval \<Rightarrow> string \<Rightarrow> jsval" where
  "get_prop (JObj kvs) k = (case map_of kvs k of Some v \<Rightarrow> v | None \<Rightarrow> JUndefined)"
| "get_prop v k = JUndefined"

text \<open>The member expression \<open>v.k\<close>: a TypeError on \<open>undefined\<close> and \<open>null\<close>.\<close>

definition member :: "jsval \<Rightarrow> string \<Rightarrow> error + jsval" where
  "member v k =
     (case v of JUndefined \<Rightarrow> Inl TypeError | JNull \<Rightarrow> Inl TypeError | _ \<Rightarrow> Inr (get_prop v k))"

text \<open>\<open>R.path(ks, v)\<close>: \<open>undefined\<close> as soon as a step is missing.\<close>

definition rpath :: "string list \<Rightarrow> jsval \<Rightarrow> jsval" where
  "rpath ks v = foldl get_prop v ks"

text \<open>The assignment \<open>o.k = v\<close> on an object: an existing property keeps its place.\<close>

fun assign :: "('k \<times> 'v) list \<Rightarrow> 'k \<Rightarrow> 'v \<Rightarrow> ('k \<times> 'v) list" where
  "assign [] k v = [(k, v)]"
| "assign (p # ps) k v = (if fst p = k then (k, v) # ps else p # assign ps k v)"

definition set_prop :: "jsval \<Rightarrow> string \<Rightarrow> jsval \<Rightarrow> jsval" where
  "set_prop obj k v = (case obj of JObj kvs \<Rightarrow> JObj (assign kvs k v) | _ \<Rightarrow> obj)"

definition has_prop :: "jsval \<Rightarrow> string \<Rightarrow> bool" where
  "has_prop obj k = (case obj of JObj kvs \<Rightarrow> k \<in> fst ` set kvs | _ \<Rightarrow> False)"

text \<open>\<open>R.isNil\<close>.\<close>

definition isNil :: "jsval \<Rightarrow> bool" where
  "isNil v = (v = JUndefined \<or> v = JNull)"

text \<open>\<open>R.isEmpty\<close>: the empty string, array and object; nothing else.\<close>

fun isEmpty :: "jsval \<Rightarrow> bool" where
  "isEmpty (JStr s) = (s = [])"
| "isEmpty (JArr xs) = (xs = [])"
| "isEmpty (JObj kvs) = (kvs = [])"
| "isEmpty v = False"

text \<open>\<open>String.prototype.startsWith\<close>.\<close>

definition startsWith :: "string \<Rightarrow> string \<Rightarrow> bool" where
  "startsWith s p = (take (length p) s = p)"

section \<open>What the Parser imports\<close>

text \<open>
  \<open>cleanNulls\<close>, \<open>isUrl\<close> and \<open>fileInfo\<close> come from the utils package and \<open>schemas\<close>
  from the schemas package; the Parser only calls them, so they are parameters. The pure
  ones are gathered in \<open>lib\<close>: \<open>schemas v name\<close> is \<open>None\<close> when the promise resolves
  and the rejection otherwise. \<open>numberToString\<close> is the runtime's Number-to-String
  conversion, and \<open>nondecimalSeconds s\<close> is the runtime's value of
  \<open>new Date(Number(s) * 1000).getTime() / 1000\<close> for a string \<open>s\<close> that is not a plain
  sequence of decimal digits (signs, exponents, radix prefixes, padding, \<open>Infinity\<close>,
  and everything that is not a number at all).
\<close>

record lib =
  cleanNulls :: "jsval \<Rightarrow> jsval"
  isUrl :: "string \<Rightarrow> bool"
  schemas :: "jsval \<Rightarrow> string \<Rightarrow> error option"
  numberToString :: "jsnum \<Rightarrow> string"
  nondecimalSeconds :: "string \<Rightarrow> jsnum"

text \<open>
  What one run of \<open>parse\<close> reads from outside: the clock (\<open>Date.now()\<close>, in
  milliseconds), the identifier \<open>uuid.v4()\<close> hands out (a run asks for at most one), and
  the answer of \<open>fileInfo\<close> for a URL.
\<close>

record world =
  now :: int
  uuid :: string
  fileInfo :: "string \<Rightarrow> error + jsval"

section \<open>The Parser\<close>

record parser =
  serviceID :: string
  generatorName :: string

definition Parser :: "string \<Rightarrow> string \<Rightarrow> string \<Rightarrow> parser" where
  "Parser serviceName sid logLevel = \<lparr> serviceID = sid, generatorName = serviceName \<rparr>"

subsection \<open>Timestamps\<close>

definition is_digit :: "char \<Rightarrow> bool" where
  "is_digit c = (c \<in> set ''0123456789'')"

definition digit_val :: "char \<Rightarrow> int" where
  "digit_val c = int (of_char c) - 48"

definition decimal :: "string \<Rightarrow> int" where
  "decimal s = foldl (\<lambda>a c. 10 * a + digit_val c) 0 s"

text \<open>
  \<open>ts.split('.')[0]\<close> is what stands before the first dot.
  \<open>Number(s)\<close> of a string of decimal digits is the number it denotes, and 0 for the
  empty string. \<open>new Date(n * 1000).getTime()\<close> is \<open>n * 1000\<close> when that is at most
  8.64e15 milliseconds and NaN beyond (the time values a Date holds); up to that bound all
  the arithmetic is exact in doubles, and a larger \<open>n\<close>, rounded or not, stays beyond it.
\<close>

definition seconds_part :: "string \<Rightarrow> string" where
  "seconds_part ts = takeWhile (\<lambda>c. c \<noteq> CHR ''.'') ts"

definition ts2Timestamp :: "lib \<Rightarrow> string \<Rightarrow> jsnum" where
  "ts2Timestamp L ts =
     (let s = seconds_part ts in
      if list_all is_digit s
      then (let n = decimal s in
            if n * 1000 \<le> 8640000000000000 then Fin (of_int n) else NaN)
      else nondecimalSeconds L s)"

definition createIdentifier :: "world \<Rightarrow> string" where
  "createIdentifier W = uuid W"

text \<open>\<open>ts.split\<close> exists on strings only: a truthy \<open>ts\<close> of another type throws.\<close>

definition createActivityStream :: "parser \<Rightarrow> lib \<Rightarrow> world \<Rightarrow> jsval \<Rightarrow> error + jsval" where
  "createActivityStream P L W normalized =
     (let ts = js_or (get_prop normalized ''thread_ts'') (get_prop normalized ''ts'') in
      case (if truthy ts
            then (case ts of JStr s \<Rightarrow> Inr (ts2Timestamp L s) | _ \<Rightarrow> Inl TypeError)
            else Inr (Fin (of_int (now W div 1000)))) of
        Inl e \<Rightarrow> Inl e
      | Inr published \<Rightarrow>
          Inr (JObj
            [(''@context'', JStr ''https://www.w3.org/ns/activitystreams''),
             (''generator'', JObj
                [(''id'', JStr (serviceID P)),
                 (''name'', JStr (generatorName P)),
                 (''type'', JStr ''Service'')]),
             (''published'', JNum published),
             (''type'', JStr ''Create'')]))"

subsection \<open>File attachments\<close>

text \<open>
  \<open>parseFile\<close> returns \<open>null\<close> for a mimetype that is neither image nor video. It
  throws when \<open>mimetype\<close> is not a string, and when the attachment has no
  \<open>initial_comment\<close> to read \<open>comment\<close> from (or an empty array of them). The
  properties are listed in the order the code creates them.
\<close>

definition initial_comment_of :: "jsval \<Rightarrow> error + jsval" where
  "initial_comment_of attachment =
     (case get_prop attachment ''initial_comment'' of
        JArr xs \<Rightarrow> (case xs of [] \<Rightarrow> Inl TypeError | x # _ \<Rightarrow> member x ''comment'')
      | ic \<Rightarrow> member ic ''comment'')"

definition parseFile :: "jsval \<Rightarrow> error + jsval" where
  "parseFile attachment =
     (case get_prop attachment ''mimetype'' of
        JStr m \<Rightarrow>
          if startsWith m ''image'' \<or> startsWith m ''video''
          then (let mediaType = (if startsWith m ''video'' then ''Video'' else ''Image'');
                    a = [(''mediaType'', JStr m),
                         (''name'', get_prop attachment ''name''),
                         (''type'', JStr mediaType),
                         (''url'', get_prop attachment ''permalink_public'')];
                    a' = (if truthy (get_prop attachment ''thumb_1024'')
                          then assign a ''preview'' (get_prop attachment ''thumb_1024'')
                          else a)
                in case initial_comment_of attachment of
                     Inl e \<Rightarrow> Inl e
                   | Inr c \<Rightarrow> Inr (JObj (assign a' ''content'' (js_or c (JStr '''')))))
          else Inr JNull
      | _ \<Rightarrow> Inl TypeError)"

subsection \<open>parse\<close>

text \<open>Template literals and string concatenation apply ToString to each part.\<close>

fun join_comma :: "string list \<Rightarrow> string" where
  "join_comma [] = []"
| "join_comma [x] = x"
| "join_comma (x # y # ys) = x @ CHR '','' # join_comma (y # ys)"

fun js_toString :: "lib \<Rightarrow> jsval \<Rightarrow> string" where
  "js_toString L JUndefined = ''undefined''"
| "js_toString L JNull = ''null''"
| "js_toString L (JBool b) = (if b then ''true'' else ''false'')"
| "js_toString L (JNum n) = numberToString L n"
| "js_toString L (JStr s) = s"
| "js_toString L (JArr xs) =
     join_comma (map (\<lambda>x. if x = JUndefined \<or> x = JNull then [] else js_toString L x) xs)"
| "js_toString L (JObj kvs) = ''[object Object]''"

text \<open>\<open>text.substr(1)\<close>, then \<open>url.substring(0, url.length - 1)\<close>.\<close>

definition strip_ends :: "string \<Rightarrow> string" where
  "strip_ends s = (let url = drop 1 s in take (length url - 1) url)"

definition message_id :: "world \<Rightarrow> jsval \<Rightarrow> jsval" where
  "message_id W normalized =
     js_or (js_or (get_prop normalized ''thread_ts'') (get_prop normalized ''ts''))
           (JStr (createIdentifier W))"

text \<open>
  The first \<open>then\<close> of \<open>parse\<close>: the media a URL in the text points to, or else the
  file attachment. A throw inside it rejects the promise.
\<close>

definition parse_media :: "lib \<Rightarrow> world \<Rightarrow> jsval \<Rightarrow> jsval \<Rightarrow> error + jsval" where
  "parse_media L W normalized as2 =
     (case get_prop normalized ''text'' of
        JStr text \<Rightarrow>
          (let url = strip_ends text in
           if isUrl L url
           then (case fileInfo W url of
                   Inl e \<Rightarrow> Inl e
                 | Inr infos \<Rightarrow>
                     (case member infos ''mimetype'' of
                        Inl e \<Rightarrow> Inl e
                      | Inr (JStr mediaType) \<Rightarrow>
                          (let fileType =
                                 (if startsWith mediaType ''image/'' then JStr ''Image''
                                  else if startsWith mediaType ''video/'' then JStr ''Video''
                                  else JNull)
                           in Inr (set_prop as2 ''object'' (JObj
                                [(''id'', js_or (get_prop normalized ''eventID'')
                                                 (JStr (createIdentifier W))),
                                 (''mediaType'', JStr mediaType),
                                 (''type'', fileType),
                                 (''url'', JStr url)])))
                      | Inr _ \<Rightarrow> Inl TypeError))
           else if truthy (get_prop normalized ''file'')
           then (case parseFile (get_prop normalized ''file'') of
                   Inl e \<Rightarrow> Inl e
                 | Inr attachment \<Rightarrow>
                     if truthy attachment
                     then (let obj =
                                 [(''content'', get_prop attachment ''content''),
                                  (''id'', message_id W normalized),
                                  (''mediaType'', get_prop attachment ''mediaType''),
                                  (''name'', get_prop attachment ''name''),
                                  (''type'', get_prop attachment ''type''),
                                  (''url'', get_prop attachment ''url'')];
                               obj' = (if truthy (get_prop attachment ''preview'')
                                       then assign obj ''preview'' (get_prop attachment ''preview'')
                                       else obj)
                           in Inr (set_prop as2 ''object'' (JObj obj')))
                     else Inr as2)
           else Inr as2)
      | _ \<Rightarrow> Inl TypeError)"

text \<open>The second \<open>then\<close>: the Note fallback and the interactive-message context.\<close>

definition parse_note :: "lib \<Rightarrow> world \<Rightarrow> jsval \<Rightarrow> jsval \<Rightarrow> jsval" where
  "parse_note L W normalized as2 =
     (let as3 =
            (if \<not> truthy (get_prop as2 ''object'') \<and> \<not> isEmpty (get_prop normalized ''content'')
             then set_prop as2 ''object'' (JObj
                    [(''content'', get_prop normalized ''text''),
                     (''id'', message_id W normalized),
                     (''type'', JStr ''Note'')])
             else as2)
      in if truthy (get_prop as3 ''object'')
            \<and> get_prop normalized ''subtype'' = JStr ''interactive_message''
         then set_prop as3 ''object''
                (set_prop (get_prop as3 ''object'') ''context'' (JObj
                   [(''content'', JStr (js_toString L (get_prop normalized ''callback_id'')
                                        @ ''#''
                                        @ js_toString L (get_prop normalized ''response_url''))),
                    (''name'', JStr ''interactive_message_callback''),
                    (''type'', JStr ''Object'')]))
         else as3)"

definition actor_of :: "jsval \<Rightarrow> jsval" where
  "actor_of normalized =
     JObj [(''id'', rpath [''user'', ''id''] normalized),
           (''name'', rpath [''user'', ''name''] normalized),
           (''type'', JStr (if truthy (rpath [''user'', ''is_bot''] normalized)
                            then ''Application'' else ''Person''))]"

definition target_of :: "jsval \<Rightarrow> jsval" where
  "target_of normalized =
     JObj [(''id'', rpath [''channel'', ''id''] normalized),
           (''name'', js_or (rpath [''channel'', ''id''] normalized)
                            (rpath [''channel'', ''user''] normalized)),
           (''type'', JStr (if truthy (rpath [''channel'', ''is_im''] normalized)
                            then ''Person'' else ''Group''))]"

definition parse :: "parser \<Rightarrow> lib \<Rightarrow> world \<Rightarrow> jsval \<Rightarrow> jsval outcome" where
  "parse P L W event =
     (let normalized = cleanNulls L event in
      if \<not> truthy normalized \<or> isEmpty normalized then Resolved JNull
      else if \<not> truthy (get_prop normalized ''text'') then Resolved JNull
      else (case createActivityStream P L W normalized of
              Inl e \<Rightarrow> Thrown e
            | Inr activitystreams \<Rightarrow>
                (let as1 = set_prop activitystreams ''actor'' (actor_of normalized);
                     as2 = set_prop as1 ''target'' (target_of normalized)
                 in case parse_media L W normalized as2 of
                      Inl e \<Rightarrow> Rejected e
                    | Inr as3 \<Rightarrow> Resolved (parse_note L W normalized as3))))"

subsection \<open>validate\<close>

definition validate :: "lib \<Rightarrow> jsval \<Rightarrow> jsval outcome" where
  "validate L event =
     (let parsed = cleanNulls L event in
      if \<not> truthy parsed \<or> isEmpty parsed then Resolved JNull
      else if \<not> truthy (get_prop parsed ''type'') then Resolved JNull
      else (case schemas L parsed ''activity'' of
              None \<Rightarrow> Resolved parsed
            | Some err \<Rightarrow> Resolved JNull))"

section \<open>The Kik adapter\<close>

text \<open>
  The SDK, the Node library and the adapter's own Parser and WebHookServer classes are
  called, not defined, in the adapter: \<open>url.parse\<close>, the answers of the Kik session
  (\<open>getUserProfile\<close>, \<open>send\<close>) and the three methods of the adapter's Parser are
  parameters. A call that returns a promise answers with its value or its rejection.
\<close>

datatype kind = Picture | Video | Text

record message =
  kind :: kind
  body :: jsval
  attributionName :: "jsval option"
  attributionIcon :: "jsval option"
  responseKeyboard :: "(jsval \<times> jsval) option"

record kik =
  url_parse :: "string \<Rightarrow> jsval"
  getUserProfile :: "jsval \<Rightarrow> error + jsval"
  session_send :: "message \<Rightarrow> jsval \<Rightarrow> error option"
  parser_normalize :: "jsval \<Rightarrow> jsval \<Rightarrow> error + jsval"
  parser_parse :: "jsval \<Rightarrow> error + jsval"
  parser_validate :: "jsval \<Rightarrow> error + jsval"

text \<open>
  Of the WebHookServer only its existence and whether it listens are modelled. The router
  is the list of mounts made with \<open>router.use\<close>; a session is the options object its
  KikBot was created with. The field \<open>connected\<close> is not initialised by the constructor:
  \<open>undefined\<close> and \<open>false\<close> are both \<open>False\<close> here, as the code only tests it.
  The adapter's service id is the field \<open>sid\<close> (\<open>serviceID\<close> names the Parser's).
\<close>

record webhook =
  http :: jsval
  listening :: bool

record adapter =
  sid :: jsval
  token :: jsval
  connected :: bool
  session :: "jsval option"
  kik_parser :: "string \<times> jsval \<times> jsval"
  logLevel :: jsval
  username :: jsval
  router :: "(string \<times> jsval) list"
  webhookServer :: "webhook option"
  webhookURL :: string
  storeUsers :: "(jsval \<times> jsval) list"

definition serviceName :: string where
  "serviceName = ''kik''"

definition serviceId :: "adapter \<Rightarrow> jsval" where
  "serviceId A = sid A"

text \<open>
  \<open>s.replace(/\/?$/, '/')\<close> and \<open>s.replace(/\/?$/, '')\<close>: the match is the final
  slash, or the empty end of the string.
\<close>

definition ensure_slash :: "string \<Rightarrow> string" where
  "ensure_slash s = (if s \<noteq> [] \<and> last s = CHR ''/'' then s else s @ ''/'')"

definition drop_slash :: "string \<Rightarrow> string" where
  "drop_slash s = (if s \<noteq> [] \<and> last s = CHR ''/'' then butlast s else s)"

text \<open>
  The constructor; \<open>v4\<close> is what \<open>uuid.v4()\<close> would return. Reading \<open>obj.webhookURL\<close>
  throws on a missing options object, and \<open>replace\<close> on a value that is not a string.
\<close>

definition Adapter :: "string \<Rightarrow> jsval \<Rightarrow> error + adapter" where
  "Adapter v4 obj =
     (let serviceID' = js_or (js_and obj (get_prop obj ''serviceID'')) (JStr v4);
          logLevel' = js_or (js_and obj (get_prop obj ''logLevel'')) (JStr ''info'');
          token' = js_or (js_and obj (get_prop obj ''token'')) JNull;
          username' = js_or (js_and obj (get_prop obj ''username'')) (JStr ''SMS'')
      in if token' = JStr [] then Inl (Error ''Token should exist.'')
         else (case member obj ''webhookURL'' of
                 Inl e \<Rightarrow> Inl e
               | Inr (JStr u) \<Rightarrow>
                   Inr \<lparr> sid = serviceID', token = token', connected = False, session = None,
                         kik_parser = (serviceName, serviceID', logLevel'),
                         logLevel = logLevel', username = username',
                         router = [],
                         webhookServer =
                           (if truthy (get_prop obj ''http'')
                            then Some \<lparr> http = get_prop obj ''http'', listening = False \<rparr>
                            else None),
                         webhookURL = ensure_slash u, storeUsers = [] \<rparr>
               | Inr _ \<Rightarrow> Inl TypeError))"

text \<open>\<open>getRouter\<close>: \<open>None\<close> is the \<open>null\<close> it returns.\<close>

definition getRouter :: "adapter \<Rightarrow> (string \<times> jsval) list option" where
  "getRouter A = (if webhookServer A \<noteq> None then None else Some (router A))"

definition connected_event :: "adapter \<Rightarrow> jsval" where
  "connected_event A = JObj [(''type'', JStr ''connected''), (''serviceID'', serviceId A)]"

text \<open>
  \<open>connect\<close> returns the new state and what the Observable delivers: a value, or an error.
\<close>

definition connect :: "lib \<Rightarrow> kik \<Rightarrow> adapter \<Rightarrow> adapter \<times> (error + jsval)" where
  "connect L K A =
     (if connected A then (A, Inr (connected_event A))
      else if \<not> truthy (token A) \<or> \<not> truthy (username A) \<or> webhookURL A = []
      then (A, Inl (Error ''Credentials should exist.''))
      else (let u = url_parse K (webhookURL A);
                kikOptions =
                  [(''apiKey'', token A),
                   (''baseUrl'', JStr (js_toString L (get_prop u ''protocol'') @ ''//''
                                       @ js_toString L (get_prop u ''hostname''))),
                   (''incomingPath'', JStr ''/''),
                   (''username'', username A)]
            in case (if truthy (get_prop u ''path'')
                     then (case get_prop u ''path'' of
                             JStr p \<Rightarrow> Inr (assign kikOptions ''incomingPath'' (JStr (drop_slash p)))
                           | _ \<Rightarrow> Inl TypeError)
                     else Inr kikOptions) of
                 Inl e \<Rightarrow> (A, Inl e)
               | Inr opts \<Rightarrow>
                   (let A' = A \<lparr> session := Some (JObj opts),
                                 router := router A @ [(''/'', JObj opts)],
                                 webhookServer :=
                                   map_option (\<lambda>w. w \<lparr> listening := True \<rparr>) (webhookServer A),
                                 connected := True \<rparr>
                    in (A', Inr (connected_event A')))))"

text \<open>
  \<open>disconnect\<close> resolves with \<open>null\<close> (the webhook server's \<open>close\<close> is taken to do
  so too).
\<close>

definition disconnect :: "adapter \<Rightarrow> adapter \<times> jsval outcome" where
  "disconnect A =
     (let A' = A \<lparr> connected := True \<rparr>
      in case webhookServer A' of
           Some w \<Rightarrow> (A' \<lparr> webhookServer := Some (w \<lparr> listening := False \<rparr>) \<rparr>, Resolved JNull)
         | None \<Rightarrow> (A', Resolved JNull))"

subsection \<open>listen\<close>

definition store_get :: "adapter \<Rightarrow> jsval \<Rightarrow> jsval" where
  "store_get A key = (case map_of (storeUsers A) key of Some v \<Rightarrow> v | None \<Rightarrow> JUndefined)"

definition user :: "kik \<Rightarrow> adapter \<Rightarrow> jsval \<Rightarrow> bool \<Rightarrow> adapter \<times> (error + jsval)" where
  "user K A key cache =
     (if session A = None then (A, Inl (Error ''Session should be initilized before.''))
      else if cache \<and> truthy (store_get A key) then (A, Inr (store_get A key))
      else (case getUserProfile K key of
              Inl e \<Rightarrow> (A, Inl e)
            | Inr profile \<Rightarrow>
                (case member profile ''displayName'' of
                   Inl e \<Rightarrow> (A, Inl e)
                 | Inr dn \<Rightarrow>
                     (let data = JObj
                            [(''displayName'', dn),
                             (''firstName'', get_prop profile ''firstName''),
                             (''id'', key),
                             (''lastName'', get_prop profile ''lastName''),
                             (''profilePicLastModified'', get_prop profile ''profilePicLastModified''),
                             (''profilePicUrl'', get_prop profile ''profilePicUrl''),
                             (''username'', get_prop profile ''username'')]
                      in (A \<lparr> storeUsers := assign (storeUsers A) key data \<rparr>, Inr data)))))"

text \<open>
  What the handler registered by \<open>listen\<close> does for one incoming message, as the list of
  the calls it makes, in order: the Parser's three methods, \<open>observer.next\<close> (\<open>Emit\<close>)
  and the SDK's \<open>next\<close>. A rejection ends the chain where it happens.
\<close>

datatype call =
    CallNormalize jsval jsval
  | CallParse jsval
  | CallValidate jsval
  | Emit jsval
  | Next

definition on_incoming :: "kik \<Rightarrow> adapter \<Rightarrow> jsval \<Rightarrow> adapter \<times> call list" where
  "on_incoming K A incoming =
     (case member incoming ''from'' of
        Inl e \<Rightarrow> (A, [])
      | Inr sender \<Rightarrow>
          (case user K A sender True of
             (A', Inl e) \<Rightarrow> (A', [])
           | (A', Inr userInformation) \<Rightarrow>
               (case parser_normalize K incoming userInformation of
                  Inl e \<Rightarrow> (A', [CallNormalize incoming userInformation])
                | Inr normalized \<Rightarrow>
                    (case parser_parse K normalized of
                       Inl e \<Rightarrow> (A', [CallNormalize incoming userInformation, CallParse normalized])
                     | Inr parsed \<Rightarrow>
                         (case parser_validate K parsed of
                            Inl e \<Rightarrow>
                              (A', [CallNormalize incoming userInformation, CallParse normalized,
                                    CallValidate parsed])
                          | Inr validated \<Rightarrow>
                              (A', [CallNormalize incoming userInformation, CallParse normalized,
                                    CallValidate parsed]
                                   @ (if truthy validated then [Emit validated] else [])
                                   @ [Next]))))))"

text \<open>
  \<open>listen\<close> itself: an error Observable without a session; otherwise the Observable
  that runs \<open>on_incoming\<close> on every message the platform delivers, with the list of the
  calls made.
\<close>

fun deliver :: "kik \<Rightarrow> adapter \<Rightarrow> jsval list \<Rightarrow> adapter \<times> call list" where
  "deliver K A [] = (A, [])"
| "deliver K A (incoming # rest) =
     (case on_incoming K A incoming of
        (A', cs) \<Rightarrow> (case deliver K A' rest of (A'', cs') \<Rightarrow> (A'', cs @ cs')))"

definition listen :: "kik \<Rightarrow> adapter \<Rightarrow> jsval list \<Rightarrow> error + adapter \<times> call list" where
  "listen K A incomings =
     (if session A = None then Inl (Error ''No session found.'')
      else Inr (deliver K A incomings))"

subsection \<open>send\<close>

text \<open>
  \<open>R.filter\<close>, \<open>R.map\<close> and \<open>R.reject\<close> work on the elements of an array and on the
  values of an object; on any other value \<open>R.filter\<close> gives the empty array. The
  predicate reads \<open>attachment.type\<close>, which throws on \<open>undefined\<close> and \<open>null\<close>.
\<close>

fun filter_buttons :: "jsval list \<Rightarrow> error + jsval list" where
  "filter_buttons [] = Inr []"
| "filter_buttons (a # as) =
     (case member a ''type'' of
        Inl e \<Rightarrow> Inl e
      | Inr t \<Rightarrow>
          (case filter_buttons as of
             Inl e \<Rightarrow> Inl e
           | Inr bs \<Rightarrow> Inr (if t = JStr ''Button'' then a # bs else bs)))"

fun filter_button_props :: "(string \<times> jsval) list \<Rightarrow> error + (string \<times> jsval) list" where
  "filter_button_props [] = Inr []"
| "filter_button_props (p # ps) =
     (case member (snd p) ''type'' of
        Inl e \<Rightarrow> Inl e
      | Inr t \<Rightarrow>
          (case filter_button_props ps of
             Inl e \<Rightarrow> Inl e
           | Inr bs \<Rightarrow> Inr (if t = JStr ''Button'' then p # bs else bs)))"

definition button_label :: "jsval \<Rightarrow> jsval" where
  "button_label button = js_or (get_prop button ''url'') (get_prop button ''name'')"

definition buttons_of :: "jsval \<Rightarrow> error + jsval" where
  "buttons_of attachments =
     (case js_or attachments (JArr []) of
        JArr as \<Rightarrow>
          (case filter_buttons as of
             Inl e \<Rightarrow> Inl e
           | Inr bs \<Rightarrow> Inr (JArr (filter (\<lambda>b. \<not> isNil b) (map button_label bs))))
      | JObj ps \<Rightarrow>
          (case filter_button_props ps of
             Inl e \<Rightarrow> Inl e
           | Inr bs \<Rightarrow>
               Inr (JObj (filter (\<lambda>p. \<not> isNil (snd p))
                                 (map (\<lambda>p. (fst p, button_label (snd p))) bs))))
      | _ \<Rightarrow> Inr (JArr []))"

text \<open>
  The message built for a data type, \<open>None\<close> for the \<open>[null, null]\<close> of any other type.
\<close>

definition build_message :: "jsval \<Rightarrow> jsval \<Rightarrow> message option" where
  "build_message dataType data =
     (if dataType = JStr ''Image'' \<or> dataType = JStr ''Video''
      then (let url = rpath [''object'', ''url''] data;
                name = js_or (rpath [''object'', ''name''] data) (JStr []);
                preview = js_or (rpath [''object'', ''preview''] data) url;
                m = \<lparr> kind = (if dataType = JStr ''Image'' then Picture else Video), body = url,
                       attributionName = None, attributionIcon = None, responseKeyboard = None \<rparr>;
                m' = (if truthy name then m \<lparr> attributionName := Some name \<rparr> else m)
            in Some (if truthy preview then m' \<lparr> attributionIcon := Some preview \<rparr> else m'))
      else if dataType = JStr ''Note''
      then Some \<lparr> kind = Text, body = rpath [''object'', ''content''] data,
                  attributionName = None, attributionIcon = None, responseKeyboard = None \<rparr>
      else None)"

text \<open>
  What \<open>send\<close> does between the validation and the SDK call: the receiver, the buttons
  and the message, \<open>None\<close> standing for the \<open>[null, null]\<close> of an unsupported type.
\<close>

definition compose :: "jsval \<Rightarrow> error + (message option \<times> jsval)" where
  "compose data =
     (let toID = js_or (rpath [''to'', ''id''] data) (rpath [''to'', ''name''] data);
          dataType = rpath [''object'', ''type''] data;
          attachments = rpath [''object'', ''attachment''] data
      in case buttons_of attachments of
           Inl e \<Rightarrow> Inl e
         | Inr btns \<Rightarrow>
             (case build_message dataType data of
                None \<Rightarrow> Inr (None, toID)
              | Some message \<Rightarrow>
                  Inr (Some (if truthy btns \<and> \<not> isEmpty btns
                             then message \<lparr> responseKeyboard := Some (btns, toID) \<rparr>
                             else message), toID)))"

text \<open>
  \<open>send\<close> returns the promise's outcome and the calls made on the way, in order: the
  schema validation, the construction of the SDK message, and the SDK's \<open>send\<close>.
  Without a session, \<open>this.session.send\<close> throws inside the chain.
\<close>

datatype effect =
    SchemasCall jsval string
  | MessageBuilt message
  | SessionSend message jsval

definition send :: "lib \<Rightarrow> kik \<Rightarrow> adapter \<Rightarrow> jsval \<Rightarrow> jsval outcome \<times> effect list" where
  "send L K A data =
     (case schemas L data ''send'' of
        Some err \<Rightarrow> (Rejected err, [SchemasCall data ''send''])
      | None \<Rightarrow>
          (case compose data of
             Inl e \<Rightarrow> (Rejected e, [SchemasCall data ''send''])
           | Inr (None, toID) \<Rightarrow>
               (Rejected (Error ''Only Note, Image, and Video are supported.''),
                [SchemasCall data ''send''])
           | Inr (Some content, toID) \<Rightarrow>
               (case session A of
                  None \<Rightarrow> (Rejected TypeError, [SchemasCall data ''send'', MessageBuilt content])
                | Some s \<Rightarrow>
                    (case session_send K content toID of
                       Some e \<Rightarrow>
                         (Rejected e,
                          [SchemasCall data ''send'', MessageBuilt content,
                           SessionSend content toID])
                     | None \<Rightarrow>
                         (Resolved (JObj [(''type'', JStr ''sent''), (''serviceID'', serviceId A)]),
                          [SchemasCall data ''send'', MessageBuilt content,
                           SessionSend content toID])))))"

subsection \<open>The attachments, read at once\<close>

text \<open>
  Two notions to state what \<open>send\<close> does with the attachments without following the
  three passes of \<open>R.filter\<close>, \<open>R.map\<close> and \<open>R.reject\<close>: whether an entry is
  \<open>undefined\<close> or \<open>null\<close> (reading its \<open>type\<close> throws), and the labels
  \<open>url || name\<close> of the entries of type \<open>Button\<close>, with the missing labels left out.
\<close>

definition is_button :: "jsval \<Rightarrow> bool" where
  "is_button attachment = (get_prop attachment ''type'' = JStr ''Button'')"

definition nil_attachment :: "jsval \<Rightarrow> bool" where
  "nil_attachment attachments =
     (case js_or attachments (JArr []) of
        JArr as \<Rightarrow> list_ex isNil as
      | JObj ps \<Rightarrow> list_ex (\<lambda>p. isNil (snd p)) ps
      | _ \<Rightarrow> False)"

definition button_labels :: "jsval \<Rightarrow> jsval" where
  "button_labels attachments =
     (case js_or attachments (JArr []) of
        JArr as \<Rightarrow> JArr (filter (\<lambda>b. \<not> isNil b) (map button_label (filter is_button as)))
      | JObj ps \<Rightarrow>
          JObj (filter (\<lambda>p. \<not> isNil (snd p))
                       (map (\<lambda>p. (fst p, button_label (snd p)))
                            (filter (\<lambda>p. is_button (snd p)) ps)))
      | _ \<Rightarrow> JArr [])"

subsection \<open>The adapter over time\<close>

text \<open>
  The calls a client and the platform can make on an adapter, and the state after a
  sequence of them. \<open>send\<close>, \<open>users\<close>, \<open>getRouter\<close> and \<open>listen\<close> itself do not
  change the state; a delivered message can fill the user cache.
\<close>

datatype op = Connect | Disconnect | Deliver jsval | Send jsval

fun step :: "lib \<Rightarrow> kik \<Rightarrow> adapter \<Rightarrow> op \<Rightarrow> adapter" where
  "step L K A Connect = fst (connect L K A)"
| "step L K A Disconnect = fst (disconnect A)"
| "step L K A (Deliver incoming) = (if session A = None then A else fst (on_incoming K A incoming))"
| "step L K A (Send data) = A"

definition run :: "lib \<Rightarrow> kik \<Rightarrow> adapter \<Rightarrow> op list \<Rightarrow> adapter" where
  "run L K A ops = foldl (step L K) A ops"

section \<open>An example environment\<close>

text \<open>
  Concrete parameters to evaluate the model on: a \<open>cleanNulls\<close> that drops the
  \<open>null\<close> and \<open>undefined\<close> entries of arrays and objects at every depth, an \<open>isUrl\<close>
  that accepts what starts with \<open>http://\<close> or \<open>https://\<close>, a schema check that asks for
  an \<open>@context\<close> (activity) or an \<open>object\<close> (send), and a platform that answers.
\<close>

fun removeNulls :: "jsval \<Rightarrow> jsval" where
  "removeNulls (JArr xs) = JArr (map removeNulls (filter (\<lambda>x. \<not> isNil x) xs))"
| "removeNulls (JObj kvs) =
     JObj (map (\<lambda>p. (fst p, removeNulls (snd p))) (filter (\<lambda>p. \<not> isNil (snd p)) kvs))"
| "removeNulls v = v"

definition example_lib :: lib where
  "example_lib =
     \<lparr> cleanNulls = removeNulls,
       isUrl = (\<lambda>s. startsWith s ''http://'' \<or> startsWith s ''https://''),
       schemas = (\<lambda>v name. if has_prop v (if name = ''send'' then ''object'' else ''@context'')
                            then None else Some (External ''invalid'')),
       numberToString = (\<lambda>n. ''NaN''),
       nondecimalSeconds = (\<lambda>s. NaN) \<rparr>"

definition example_world :: world where
  "example_world =
     \<lparr> now = 1500000000123, uuid = ''110ec58a-a0f2-4ac4-8393-c866d813b8d1'',
       fileInfo = (\<lambda>u. Inr (JObj [(''mimetype'', JStr ''image/png'')])) \<rparr>"

definition example_parser :: parser where
  "example_parser = Parser ''slack'' ''service-1'' ''info''"

definition example_kik :: kik where
  "example_kik =
     \<lparr> url_parse = (\<lambda>u. JObj [(''protocol'', JStr ''https:''), (''hostname'', JStr ''bot.example''),
                               (''path'', JStr ''/hook/'')]),
       getUserProfile = (\<lambda>key. Inr (JObj [(''displayName'', JStr ''Ada'')])),
       session_send = (\<lambda>m to. None),
       parser_normalize = (\<lambda>incoming info. Inr incoming),
       parser_parse = (\<lambda>normalized. Inr normalized),
       parser_validate = (\<lambda>parsed. Inr (if has_prop parsed ''body'' then parsed else JNull)) \<rparr>"

definition example_options :: jsval where
  "example_options =
     JObj [(''serviceID'', JStr ''service-1''), (''token'', JStr ''secret''),
           (''username'', JStr ''bot''), (''webhookURL'', JStr ''https://bot.example/hook'')]"

definition example_adapter :: adapter where
  "example_adapter =
     \<lparr> sid = JStr ''service-1'', token = JStr ''secret'', connected = False, session = None,
       kik_parser = (''kik'', JStr ''service-1'', JStr ''info''), logLevel = JStr ''info'',
       username = JStr ''bot'', router = [], webhookServer = None,
       webhookURL = ''https://bot.example/hook/'', storeUsers = [] \<rparr>"

text \<open>Messages as the Slack adapter normalizes them, and what a client sends.\<close>

definition note_message :: jsval where
  "note_message =
     JObj [(''text'', JStr ''hello''), (''ts'', JStr ''1500000001.000200''),
           (''attachments'', JNull)]"

definition late_message :: jsval where
  "late_message = JObj [(''text'', JStr ''hello''), (''ts'', JStr ''8640000000001.000200'')]"

definition bare_message :: jsval where
  "bare_message = JObj [(''text'', JStr ''hello'')]"

definition empty_content_message :: jsval where
  "empty_content_message = JObj [(''text'', JStr ''hello''), (''content'', JStr [])]"

definition interactive_message :: jsval where
  "interactive_message =
     JObj [(''text'', JStr ''pick one''), (''ts'', JStr ''1500000002.000100''),
           (''subtype'', JStr ''interactive_message''), (''callback_id'', JStr ''cb1''),
           (''response_url'', JStr ''https://hooks.example/r'')]"

definition image_message :: jsval where
  "image_message =
     JObj [(''text'', JStr ''<https://img.example/a.png>''), (''ts'', JStr ''1500000003.000100''),
           (''eventID'', JStr ''Ev1'')]"

definition file_message :: jsval where
  "file_message =
     JObj [(''text'', JStr ''a clip''), (''ts'', JStr ''1500000004.000100''),
           (''file'', JObj [(''mimetype'', JStr ''video/mp4''), (''name'', JStr ''clip.mp4''),
                            (''permalink_public'', JStr ''https://files.example/clip''),
                            (''thumb_1024'', JStr ''https://files.example/clip.png''),
                            (''initial_comment'', JObj [(''comment'', JStr ''look'')])])]"

definition note_data :: jsval where
  "note_data =
     JObj [(''to'', JObj [(''id'', JStr ''ada'')]),
           (''object'', JObj [(''type'', JStr ''Note''), (''content'', JStr ''hi'')])]"

definition audio_data :: jsval where
  "audio_data =
     JObj [(''to'', JObj [(''id'', JStr ''ada'')]),
           (''object'', JObj [(''type'', JStr ''Audio''), (''url'', JStr ''https://a.example/a.mp3'')])]"

definition incoming_text :: jsval where
  "incoming_text = JObj [(''from'', JStr ''ada''), (''body'', JStr ''hi'')]"

definition incoming_receipt :: jsval where
  "incoming_receipt = JObj [(''from'', JStr ''ada''), (''type'', JStr ''delivery-receipt'')]"

definition other_world :: world where
  "other_world =
     \<lparr> now = 1600000000999, uuid = ''6ba7b810-9dad-41d1-80b4-00c04fd430c8'',
       fileInfo = (\<lambda>u. Inr (JObj [(''mimetype'', JStr ''image/png'')])) \<rparr>"

definition typed_event :: jsval where
  "typed_event =
     JObj [(''@context'', JStr ''https://www.w3.org/ns/activitystreams''),
           (''type'', JStr ''Create''), (''target'', JNull)]"

definition untyped_event :: jsval where
  "untyped_event =
     JObj [(''@context'', JStr ''https://www.w3.org/ns/activitystreams''), (''type'', JNull)]"

definition kik_options :: jsval where
  "kik_options =
     JObj [(''apiKey'', JStr ''secret''), (''baseUrl'', JStr ''https://bot.example''),
           (''incomingPath'', JStr ''/hook''), (''username'', JStr ''bot'')]"

definition connected_adapter :: adapter where
  "connected_adapter =
     example_adapter \<lparr> connected := True, session := Some kik_options,
                       router := [(''/'', kik_options)] \<rparr>"

definition ada_profile :: jsval where
  "ada_profile =
     JObj [(''displayName'', JStr ''Ada''), (''firstName'', JUndefined), (''id'', JStr ''ada''),
           (''lastName'', JUndefined), (''profilePicLastModified'', JUndefined),
           (''profilePicUrl'', JUndefined), (''username'', JUndefined)]"

definition http_options :: jsval where
  "http_options =
     JObj [(''serviceID'', JStr ''service-1''), (''token'', JStr ''secret''),
           (''username'', JStr ''bot''), (''webhookURL'', JStr ''https://bot.example/hook''),
           (''http'', JObj [(''port'', JNum (Fin 8080))])]"

definition empty_token_options :: jsval where
  "empty_token_options =
     JObj [(''serviceID'', JStr ''service-1''), (''token'', JStr []),
           (''username'', JStr ''bot''), (''webhookURL'', JStr ''https://bot.example/hook'')]"

definition image_data :: jsval where
  "image_data =
     JObj [(''to'', JObj [(''name'', JStr ''ada'')]),
           (''object'', JObj [(''type'', JStr ''Image''), (''url'', JStr ''https://img.example/a.png''),
                              (''name'', JStr ''a.png''),
                              (''attachment'',
                               JArr [JObj [(''type'', JStr ''Button''), (''name'', JStr ''More'')],
                                     JObj [(''type'', JStr ''Link''), (''name'', JStr ''Elsewhere'')],
                                     JObj [(''type'', JStr ''Button'')]])])]"

definition null_attachment_data :: jsval where
  "null_attachment_data =
     JObj [(''to'', JObj [(''id'', JStr ''ada'')]),
           (''object'', JObj [(''type'', JStr ''Audio''), (''url'', JStr ''https://a.example/a.mp3''),
                              (''attachment'', JArr [JNull])])]"

definition plain_file_message :: jsval where
  "plain_file_message =
     JObj [(''text'', JStr ''a pic''), (''ts'', JStr ''1500000005.000100''),
           (''file'', JObj [(''mimetype'', JStr ''image/png''), (''name'', JStr ''pic.png''),
                            (''permalink_public'', JStr ''https://files.example/pic'')])]"

section \<open>Properties\<close>

subsection \<open>Evaluation and objects\<close>

lemmas model_defs = parse_def parse_media_def parse_note_def createActivityStream_def
  ts2Timestamp_def seconds_part_def decimal_def digit_val_def is_digit_def message_id_def
  createIdentifier_def strip_ends_def actor_of_def target_of_def rpath_def js_or_def js_and_def
  startsWith_def member_def parseFile_def initial_comment_of_def set_prop_def has_prop_def
  Parser_def isNil_def validate_def Let_def

lemmas adapter_defs = Adapter_def getRouter_def connect_def connected_event_def disconnect_def
  serviceId_def serviceName_def ensure_slash_def drop_slash_def store_get_def user_def
  on_incoming_def listen_def compose_def buttons_of_def build_message_def button_label_def
  send_def run_def is_button_def nil_attachment_def button_labels_def

lemmas example_defs = example_lib_def example_world_def example_parser_def note_message_def
  late_message_def bare_message_def empty_content_message_def interactive_message_def
  image_message_def file_message_def other_world_def typed_event_def untyped_event_def
  example_kik_def example_options_def example_adapter_def kik_options_def
  connected_adapter_def ada_profile_def http_options_def empty_token_options_def
  note_data_def audio_data_def incoming_text_def incoming_receipt_def
  image_data_def null_attachment_data_def plain_file_message_def

lemma map_of_assign [simp]:
  "map_of (assign kvs k v) k' = (if k' = k then Some v else map_of kvs k')"
  by (induction kvs) auto

lemma set_prop_obj [simp]: "set_prop (JObj kvs) k v = JObj (assign kvs k v)"
  by (simp add: set_prop_def)

lemma fst_set_assign: "fst ` set (assign kvs k v) = insert k (fst ` set kvs)"
  by (induction kvs) auto

subsection \<open>The shape of what parse builds\<close>

lemma createActivityStream_shape:
  assumes "createActivityStream P L W n = Inr a"
  shows "\<exists>pub. a = JObj
            [(''@context'', JStr ''https://www.w3.org/ns/activitystreams''),
             (''generator'', JObj
                [(''id'', JStr (serviceID P)),
                 (''name'', JStr (generatorName P)),
                 (''type'', JStr ''Service'')]),
             (''published'', JNum pub),
             (''type'', JStr ''Create'')]
         \<and> (let ts = js_or (get_prop n ''thread_ts'') (get_prop n ''ts'') in
              (\<not> truthy ts \<longrightarrow> pub = Fin (of_int (now W div 1000)))
            \<and> (\<forall>s. ts = JStr s \<and> s \<noteq> [] \<longrightarrow> pub = ts2Timestamp L s))"
  using assms
  by (auto simp: createActivityStream_def Let_def split: if_splits jsval.splits sum.splits)

lemma parse_media_keeps:
  assumes "parse_media L W n (JObj kvs) = Inr a'" and "k \<noteq> ''object''"
  shows "get_prop a' k = get_prop (JObj kvs) k"
  using assms
  by (auto simp: parse_media_def Let_def
      split: if_splits jsval.splits sum.splits)

lemma parse_media_obj:
  assumes "parse_media L W n (JObj kvs) = Inr a'"
  shows "\<exists>kvs'. a' = JObj kvs'"
  using assms
  by (auto simp: parse_media_def Let_def
      split: if_splits jsval.splits sum.splits)

lemma parse_note_keeps:
  assumes "k \<noteq> ''object''"
  shows "get_prop (parse_note L W n (JObj kvs)) k = get_prop (JObj kvs) k"
  using assms
  by (simp add: parse_note_def Let_def)

lemma parse_Resolved:
  assumes "parse P L W event = Resolved a" and "a \<noteq> JNull"
  shows "\<exists>a0 a3. createActivityStream P L W (cleanNulls L event) = Inr a0
           \<and> parse_media L W (cleanNulls L event)
                 (set_prop (set_prop a0 ''actor'' (actor_of (cleanNulls L event)))
                    ''target'' (target_of (cleanNulls L event))) = Inr a3
           \<and> a = parse_note L W (cleanNulls L event) a3
           \<and> truthy (get_prop (cleanNulls L event) ''text'')"
  using assms
  by (auto simp: parse_def Let_def split: if_splits sum.splits)

lemma ts2Timestamp_digits:
  assumes "list_all is_digit (seconds_part s)"
  shows "ts2Timestamp L s =
           (if decimal (seconds_part s) \<le> 8640000000000
            then Fin (of_int (decimal (seconds_part s))) else NaN)"
  using assms by (simp add: ts2Timestamp_def Let_def)

lemma parse_published_generator:
  assumes "parse P L W event = Resolved a" and "a \<noteq> JNull"
  shows "get_prop a ''generator'' =
           JObj [(''id'', JStr (serviceID P)), (''name'', JStr (generatorName P)),
                 (''type'', JStr ''Service'')]
       \<and> (\<not> truthy (js_or (get_prop (cleanNulls L event) ''thread_ts'')
                          (get_prop (cleanNulls L event) ''ts''))
            \<longrightarrow> get_prop a ''published'' = JNum (Fin (of_int (now W div 1000))))
       \<and> (\<forall>s. js_or (get_prop (cleanNulls L event) ''thread_ts'')
                     (get_prop (cleanNulls L event) ''ts'') = JStr s
               \<and> s \<noteq> [] \<and> list_all is_digit (seconds_part s)
            \<longrightarrow> get_prop a ''published'' =
                  JNum (if decimal (seconds_part s) \<le> 8640000000000
                        then Fin (of_int (decimal (seconds_part s))) else NaN))"
proof -
  let ?n = "cleanNulls L event"
  from parse_Resolved[OF assms] obtain a0 a3 where
    a0: "createActivityStream P L W ?n = Inr a0" and
    a3: "parse_media L W ?n (set_prop (set_prop a0 ''actor'' (actor_of ?n))
                                ''target'' (target_of ?n)) = Inr a3" and
    a: "a = parse_note L W ?n a3"
    by blast
  from createActivityStream_shape[OF a0] obtain pub where
    sh: "a0 = JObj
            [(''@context'', JStr ''https://www.w3.org/ns/activitystreams''),
             (''generator'', JObj
                [(''id'', JStr (serviceID P)),
                 (''name'', JStr (generatorName P)),
                 (''type'', JStr ''Service'')]),
             (''published'', JNum pub),
             (''type'', JStr ''Create'')]" and
    pub: "(let ts = js_or (get_prop ?n ''thread_ts'') (get_prop ?n ''ts'') in
              (\<not> truthy ts \<longrightarrow> pub = Fin (of_int (now W div 1000)))
            \<and> (\<forall>s. ts = JStr s \<and> s \<noteq> [] \<longrightarrow> pub = ts2Timestamp L s))"
    by blast
  define kvs2 where "kvs2 = assign (assign
            [(''@context'', JStr ''https://www.w3.org/ns/activitystreams''),
             (''generator'', JObj
                [(''id'', JStr (serviceID P)),
                 (''name'', JStr (generatorName P)),
                 (''type'', JStr ''Service'')]),
             (''published'', JNum pub),
             (''type'', JStr ''Create'')] ''actor'' (actor_of ?n)) ''target'' (target_of ?n)"
  have a3': "parse_media L W ?n (JObj kvs2) = Inr a3"
    using a3 sh by (simp add: kvs2_def)
  from parse_media_obj[OF a3'] obtain kvs3 where k3: "a3 = JObj kvs3" by blast
  have gen: "get_prop a ''generator'' = get_prop (JObj kvs2) ''generator''"
    using parse_media_keeps[OF a3', of "''generator''"] parse_note_keeps[of "''generator''" L W ?n kvs3]
    by (simp add: a k3)
  have pubeq: "get_prop a ''published'' = get_prop (JObj kvs2) ''published''"
    using parse_media_keeps[OF a3', of "''published''"] parse_note_keeps[of "''published''" L W ?n kvs3]
    by (simp add: a k3)
  have g2: "get_prop (JObj kvs2) ''generator'' =
           JObj [(''id'', JStr (serviceID P)), (''name'', JStr (generatorName P)),
                 (''type'', JStr ''Service'')]"
    by (simp add: kvs2_def)
  have p2: "get_prop (JObj kvs2) ''published'' = JNum pub"
    by (simp add: kvs2_def)
  show ?thesis
    using gen pubeq g2 p2 pub
    by (auto simp: Let_def ts2Timestamp_digits)
qed

text \<open>
  Claim C1, as amended. Every activity stream that \<open>parse\<close> resolves with carries the
  generator \<open>{id: serviceID, name: generatorName, type: 'Service'}\<close> of the Parser it was
  called on. Its \<open>published\<close> is the wall-clock time in whole seconds when the cleaned
  message has no truthy \<open>thread_ts\<close> or \<open>ts\<close>. When \<open>thread_ts || ts\<close> is a string
  whose part before the first dot is made of decimal digits, \<open>published\<close> is the number
  they denote if that is at most 8640000000000 seconds (what a Date can hold), and NaN
  beyond.
\<close>

theorem parse_generator_published:
  assumes "parse (Parser name service level) L W event = Resolved a" and "a \<noteq> JNull"
  shows "get_prop a ''generator'' =
           JObj [(''id'', JStr service), (''name'', JStr name), (''type'', JStr ''Service'')]
       \<and> (\<not> truthy (js_or (get_prop (cleanNulls L event) ''thread_ts'')
                          (get_prop (cleanNulls L event) ''ts''))
            \<longrightarrow> get_prop a ''published'' = JNum (Fin (of_int (now W div 1000))))
       \<and> (\<forall>s. js_or (get_prop (cleanNulls L event) ''thread_ts'')
                     (get_prop (cleanNulls L event) ''ts'') = JStr s
               \<and> s \<noteq> [] \<and> list_all is_digit (seconds_part s)
            \<longrightarrow> get_prop a ''published'' =
                  JNum (if decimal (seconds_part s) \<le> 8640000000000
                        then Fin (of_int (decimal (seconds_part s))) else NaN))"
  using parse_published_generator[OF assms] by (simp add: Parser_def)

text \<open>
  Claim C1 as stated, refuted: the seconds of \<open>late_message\<close> are 8640000000001, one
  second beyond the range of a Date, and \<open>published\<close> is NaN, not that number.
\<close>

theorem parse_published_beyond_date_range:
  "parse (Parser ''slack'' ''service-1'' ''info'') example_lib example_world late_message =
     Resolved (JObj
       [(''@context'', JStr ''https://www.w3.org/ns/activitystreams''),
        (''generator'', JObj [(''id'', JStr ''service-1''), (''name'', JStr ''slack''),
                              (''type'', JStr ''Service'')]),
        (''published'', JNum NaN), (''type'', JStr ''Create''),
        (''actor'', JObj [(''id'', JUndefined), (''name'', JUndefined),
                          (''type'', JStr ''Person'')]),
        (''target'', JObj [(''id'', JUndefined), (''name'', JUndefined),
                           (''type'', JStr ''Group'')]),
        (''object'', JObj [(''content'', JStr ''hello''),
                           (''id'', JStr ''8640000000001.000200''),
                           (''type'', JStr ''Note'')])])
   \<and> get_prop late_message ''ts'' = JStr ''8640000000001.000200''
   \<and> decimal (seconds_part ''8640000000001.000200'') = 8640000000001"
  by (simp add: model_defs example_defs)

text \<open>The amended claim at \<open>note_message\<close>, sent at second 1500000001.\<close>

theorem parse_generator_published_witness:
  "\<exists>a. parse (Parser ''slack'' ''service-1'' ''info'') example_lib example_world note_message
          = Resolved a
      \<and> a \<noteq> JNull
      \<and> get_prop a ''generator'' =
          JObj [(''id'', JStr ''service-1''), (''name'', JStr ''slack''),
                (''type'', JStr ''Service'')]
      \<and> get_prop a ''published'' = JNum (Fin 1500000001)"
proof -
  let ?a = "JObj
       [(''@context'', JStr ''https://www.w3.org/ns/activitystreams''),
        (''generator'', JObj [(''id'', JStr ''service-1''), (''name'', JStr ''slack''),
                              (''type'', JStr ''Service'')]),
        (''published'', JNum (Fin 1500000001)), (''type'', JStr ''Create''),
        (''actor'', JObj [(''id'', JUndefined), (''name'', JUndefined),
                          (''type'', JStr ''Person'')]),
        (''target'', JObj [(''id'', JUndefined), (''name'', JUndefined),
                           (''type'', JStr ''Group'')]),
        (''object'', JObj [(''content'', JStr ''hello''),
                           (''id'', JStr ''1500000001.000200''),
                           (''type'', JStr ''Note'')])]"
  have h: "parse (Parser ''slack'' ''service-1'' ''info'') example_lib example_world note_message
             = Resolved ?a"
    by (simp add: model_defs example_defs)
  have n: "?a \<noteq> JNull" by simp
  have ts: "js_or (get_prop (cleanNulls example_lib note_message) ''thread_ts'')
                  (get_prop (cleanNulls example_lib note_message) ''ts'')
              = JStr ''1500000001.000200''"
    by (simp add: model_defs example_defs)
  have d: "list_all is_digit (seconds_part ''1500000001.000200'')"
          "decimal (seconds_part ''1500000001.000200'') = 1500000001"
    by (simp_all add: model_defs)
  from parse_generator_published[OF h n] ts d
  have "get_prop ?a ''generator'' =
          JObj [(''id'', JStr ''service-1''), (''name'', JStr ''slack''),
                (''type'', JStr ''Service'')]
        \<and> get_prop ?a ''published'' = JNum (Fin 1500000001)"
    by simp
  with h n show ?thesis by blast
qed

text \<open>
  Claim C3. \<open>validate\<close> always resolves, with \<open>null\<close> or with the cleaned event. It
  resolves with \<open>null\<close> exactly when the cleaned event is missing (falsy) or empty, or has
  no type (the code tests \<open>!parsed.type\<close>: the field is absent or falsy), or is rejected by
  the \<open>activity\<close> schema.
\<close>

theorem validate_null_iff:
  "(validate L event = Resolved JNull \<longleftrightarrow>
      \<not> truthy (cleanNulls L event) \<or> isEmpty (cleanNulls L event)
      \<or> \<not> truthy (get_prop (cleanNulls L event) ''type'')
      \<or> schemas L (cleanNulls L event) ''activity'' \<noteq> None)
   \<and> (validate L event \<noteq> Resolved JNull \<longrightarrow> validate L event = Resolved (cleanNulls L event))"
  by (auto simp: validate_def Let_def split: option.splits)

text \<open>
  An event that passes, returned without its \<open>null\<close> field, and one whose \<open>type\<close> is
  \<open>null\<close>, answered with \<open>null\<close>.
\<close>

theorem validate_null_iff_witness:
  "validate example_lib typed_event =
     Resolved (JObj [(''@context'', JStr ''https://www.w3.org/ns/activitystreams''),
                     (''type'', JStr ''Create'')])
   \<and> validate example_lib untyped_event = Resolved JNull"
  using validate_null_iff[of example_lib typed_event]
    validate_null_iff[of example_lib untyped_event]
  by (simp add: model_defs example_defs)

lemma has_prop_assign:
  "has_prop (JObj (assign kvs k v)) k' \<longleftrightarrow> k' = k \<or> has_prop (JObj kvs) k'"
  by (auto simp: has_prop_def fst_set_assign)

lemma parse_media_no_context:
  assumes "parse_media L W n (JObj kvs) = Inr a'"
    and "get_prop (JObj kvs) ''object'' = JUndefined"
  shows "\<not> has_prop (get_prop a' ''object'') ''context''"
  using assms
  by (auto simp: parse_media_def Let_def has_prop_def fst_set_assign
      split: if_splits jsval.splits sum.splits option.splits)

lemma parse_media_object_shape:
  assumes "parse_media L W n (JObj kvs) = Inr a'"
    and "get_prop (JObj kvs) ''object'' = JUndefined"
  shows "get_prop a' ''object'' = JUndefined \<or> (\<exists>ps. get_prop a' ''object'' = JObj ps)"
  using assms
  by (auto simp: parse_media_def Let_def
      split: if_splits jsval.splits sum.splits option.splits)

lemma parse_note_context:
  assumes "get_prop (JObj kvs) ''object'' = JUndefined \<or> (\<exists>ps. get_prop (JObj kvs) ''object'' = JObj ps)"
    and "\<not> has_prop (get_prop (JObj kvs) ''object'') ''context''"
  shows "(get_prop n ''subtype'' = JStr ''interactive_message''
            \<and> truthy (get_prop (parse_note L W n (JObj kvs)) ''object'')
          \<longrightarrow> get_prop (get_prop (parse_note L W n (JObj kvs)) ''object'') ''context'' =
                JObj [(''content'', JStr (js_toString L (get_prop n ''callback_id'') @ ''#''
                                         @ js_toString L (get_prop n ''response_url''))),
                      (''name'', JStr ''interactive_message_callback''),
                      (''type'', JStr ''Object'')])
       \<and> (get_prop n ''subtype'' \<noteq> JStr ''interactive_message''
          \<longrightarrow> \<not> has_prop (get_prop (parse_note L W n (JObj kvs)) ''object'') ''context'')"
  using assms
  by (auto simp: parse_note_def Let_def has_prop_def split: option.splits)

text \<open>
  Claim C6. When \<open>parse\<close> resolves with an activity stream: if the subtype of the cleaned
  message is \<open>interactive_message\<close> and the stream has an object, the object's
  \<open>context\<close> is \<open>{content: callback_id + '#' + response_url,
  name: 'interactive_message_callback', type: 'Object'}\<close>; for any other subtype the
  object has no \<open>context\<close> property.
\<close>

theorem parse_interactive_context:
  assumes "parse P L W event = Resolved a" and "a \<noteq> JNull"
  shows "(get_prop (cleanNulls L event) ''subtype'' = JStr ''interactive_message''
            \<and> truthy (get_prop a ''object'')
          \<longrightarrow> get_prop (get_prop a ''object'') ''context'' =
                JObj [(''content'',
                       JStr (js_toString L (get_prop (cleanNulls L event) ''callback_id'') @ ''#''
                             @ js_toString L (get_prop (cleanNulls L event) ''response_url''))),
                      (''name'', JStr ''interactive_message_callback''),
                      (''type'', JStr ''Object'')])
       \<and> (get_prop (cleanNulls L event) ''subtype'' \<noteq> JStr ''interactive_message''
          \<longrightarrow> \<not> has_prop (get_prop a ''object'') ''context'')"
proof -
  let ?n = "cleanNulls L event"
  from parse_Resolved[OF assms] obtain a0 a3 where
    a0: "createActivityStream P L W ?n = Inr a0" and
    a3: "parse_media L W ?n (set_prop (set_prop a0 ''actor'' (actor_of ?n))
                                ''target'' (target_of ?n)) = Inr a3" and
    a: "a = parse_note L W ?n a3"
    by blast
  from createActivityStream_shape[OF a0] obtain kvs0 where
    sh: "a0 = JObj kvs0" and no: "get_prop a0 ''object'' = JUndefined"
    by auto
  define kvs2 where "kvs2 = assign (assign kvs0 ''actor'' (actor_of ?n)) ''target'' (target_of ?n)"
  have a3': "parse_media L W ?n (JObj kvs2) = Inr a3"
    using a3 sh by (simp add: kvs2_def)
  have no2: "get_prop (JObj kvs2) ''object'' = JUndefined"
    using no sh by (simp add: kvs2_def)
  from parse_media_obj[OF a3'] obtain kvs3 where k3: "a3 = JObj kvs3" by blast
  have s3: "get_prop (JObj kvs3) ''object'' = JUndefined
            \<or> (\<exists>ps. get_prop (JObj kvs3) ''object'' = JObj ps)"
    using parse_media_object_shape[OF a3' no2] k3 by simp
  have c3: "\<not> has_prop (get_prop (JObj kvs3) ''object'') ''context''"
    using parse_media_no_context[OF a3' no2] k3 by simp
  show ?thesis
    using parse_note_context[OF s3 c3, of ?n L W] a k3 by simp
qed

text \<open>An interactive message, and a plain one.\<close>

theorem parse_interactive_context_witness:
  "(\<exists>a. parse example_parser example_lib example_world interactive_message = Resolved a
       \<and> a \<noteq> JNull
       \<and> get_prop (get_prop a ''object'') ''context'' =
           JObj [(''content'', JStr ''cb1#https://hooks.example/r''),
                 (''name'', JStr ''interactive_message_callback''),
                 (''type'', JStr ''Object'')])
   \<and> (\<exists>a. parse example_parser example_lib example_world note_message = Resolved a
       \<and> a \<noteq> JNull
       \<and> \<not> has_prop (get_prop a ''object'') ''context'')"
proof -
  obtain a where a: "parse example_parser example_lib example_world interactive_message
                       = Resolved a" "a \<noteq> JNull"
    by (simp add: model_defs example_defs)
  obtain b where b: "parse example_parser example_lib example_world note_message
                       = Resolved b" "b \<noteq> JNull"
    by (simp add: model_defs example_defs)
  have s: "get_prop (cleanNulls example_lib interactive_message) ''subtype''
             = JStr ''interactive_message''"
          "get_prop (cleanNulls example_lib interactive_message) ''callback_id'' = JStr ''cb1''"
          "get_prop (cleanNulls example_lib interactive_message) ''response_url''
             = JStr ''https://hooks.example/r''"
          "get_prop (cleanNulls example_lib note_message) ''subtype'' = JUndefined"
    by (simp_all add: model_defs example_defs)
  have t: "truthy (get_prop a ''object'')"
    using a by (auto simp: model_defs example_defs)
  from parse_interactive_context[OF a] parse_interactive_context[OF b] s t a b
  show ?thesis by auto
qed

subsection \<open>Two runs of parse\<close>

lemma createActivityStream_cong:
  assumes "truthy (js_or (get_prop n ''thread_ts'') (get_prop n ''ts''))
           \<or> now W1 div 1000 = now W2 div 1000"
  shows "createActivityStream P L W1 n = createActivityStream P L W2 n"
  using assms by (auto simp: createActivityStream_def Let_def)

lemma message_id_cong:
  assumes "truthy (js_or (get_prop n ''thread_ts'') (get_prop n ''ts'')) \<or> uuid W1 = uuid W2"
  shows "message_id W1 n = message_id W2 n"
  using assms by (auto simp: message_id_def createIdentifier_def js_or_def)

lemma parse_note_cong:
  assumes "message_id W1 n = message_id W2 n"
  shows "parse_note L W1 n a = parse_note L W2 n a"
  using assms by (simp add: parse_note_def)

lemma parse_media_cong:
  assumes "message_id W1 n = message_id W2 n"
    and "\<forall>t. get_prop n ''text'' = JStr t \<and> isUrl L (strip_ends t)
             \<longrightarrow> fileInfo W1 (strip_ends t) = fileInfo W2 (strip_ends t)
                 \<and> (truthy (get_prop n ''eventID'') \<or> uuid W1 = uuid W2)"
  shows "parse_media L W1 n a = parse_media L W2 n a"
  using assms
  by (auto simp: parse_media_def Let_def js_or_def createIdentifier_def
      split: jsval.splits sum.splits)

text \<open>
  Claim C4, as amended. \<open>parse\<close> reads the clock, a fresh identifier and the answer of
  \<open>fileInfo\<close>. Two runs on the same input resolve, reject or throw alike whenever
  \<open>fileInfo\<close> answers the same for the URL in the text (if the text holds one) and either
  the two runs read the same second and draw the same identifier, or the cleaned message
  has a truthy \<open>thread_ts\<close> or \<open>ts\<close> and, if its text holds a URL, a truthy \<open>eventID\<close>.
\<close>

theorem parse_same_result:
  assumes "\<forall>t. get_prop (cleanNulls L event) ''text'' = JStr t \<and> isUrl L (strip_ends t)
             \<longrightarrow> fileInfo W1 (strip_ends t) = fileInfo W2 (strip_ends t)"
    and "(uuid W1 = uuid W2 \<and> now W1 div 1000 = now W2 div 1000)
         \<or> (truthy (js_or (get_prop (cleanNulls L event) ''thread_ts'')
                           (get_prop (cleanNulls L event) ''ts''))
            \<and> (\<forall>t. get_prop (cleanNulls L event) ''text'' = JStr t \<and> isUrl L (strip_ends t)
                    \<longrightarrow> truthy (get_prop (cleanNulls L event) ''eventID'')))"
  shows "parse P L W1 event = parse P L W2 event"
proof -
  let ?n = "cleanNulls L event"
  have c: "createActivityStream P L W1 ?n = createActivityStream P L W2 ?n"
    using assms(2) by (intro createActivityStream_cong) blast
  have m: "message_id W1 ?n = message_id W2 ?n"
    using assms(2) by (intro message_id_cong) blast
  have pm: "parse_media L W1 ?n a = parse_media L W2 ?n a" for a
    using assms by (intro parse_media_cong[OF m]) blast
  have pn: "parse_note L W1 ?n a = parse_note L W2 ?n a" for a
    by (rule parse_note_cong[OF m])
  show ?thesis
    by (simp add: parse_def Let_def c pm pn split: sum.splits)
qed

text \<open>
  Claim C4 as stated, refuted: a message without a timestamp gets the identifier of the
  run, so two runs on it differ.
\<close>

theorem parse_identifier_differs:
  "parse example_parser example_lib example_world bare_message
     \<noteq> parse example_parser example_lib other_world bare_message"
  by (simp add: model_defs example_defs)

text \<open>With a timestamp, the two runs agree, whatever the clock and the identifier.\<close>

theorem parse_same_result_witness:
  "parse example_parser example_lib example_world note_message
     = parse example_parser example_lib other_world note_message"
  by (rule parse_same_result) (simp_all add: model_defs example_defs)

subsection \<open>The object by kind of message\<close>

lemma parse_media_url:
  assumes "get_prop n ''text'' = JStr t" and "isUrl L (strip_ends t)"
    and "fileInfo W (strip_ends t) = Inr infos" and "member infos ''mimetype'' = Inr (JStr m)"
  shows "parse_media L W n (JObj kvs) =
           Inr (JObj (assign kvs ''object'' (JObj
                  [(''id'', js_or (get_prop n ''eventID'') (JStr (createIdentifier W))),
                   (''mediaType'', JStr m),
                   (''type'', if startsWith m ''image/'' then JStr ''Image''
                              else if startsWith m ''video/'' then JStr ''Video'' else JNull),
                   (''url'', JStr (strip_ends t))])))"
  using assms by (simp add: parse_media_def Let_def)

lemma parseFile_media:
  assumes "get_prop file ''mimetype'' = JStr m"
    and "startsWith m ''image'' \<or> startsWith m ''video''"
    and "initial_comment_of file = Inr c"
  shows "parseFile file =
           Inr (JObj (assign
                  (if truthy (get_prop file ''thumb_1024'')
                   then [(''mediaType'', JStr m), (''name'', get_prop file ''name''),
                         (''type'', JStr (if startsWith m ''video'' then ''Video'' else ''Image'')),
                         (''url'', get_prop file ''permalink_public''),
                         (''preview'', get_prop file ''thumb_1024'')]
                   else [(''mediaType'', JStr m), (''name'', get_prop file ''name''),
                         (''type'', JStr (if startsWith m ''video'' then ''Video'' else ''Image'')),
                         (''url'', get_prop file ''permalink_public'')])
                  ''content'' (js_or c (JStr []))))"
  using assms by (auto simp: parseFile_def Let_def)

lemma parse_media_file:
  assumes "get_prop n ''text'' = JStr t" and "\<not> isUrl L (strip_ends t)"
    and "truthy (get_prop n ''file'')"
    and "get_prop (get_prop n ''file'') ''mimetype'' = JStr m"
    and "startsWith m ''image'' \<or> startsWith m ''video''"
    and "initial_comment_of (get_prop n ''file'') = Inr c"
  shows "\<exists>ps. parse_media L W n (JObj kvs) = Inr (JObj (assign kvs ''object'' (JObj ps)))
           \<and> map_of ps ''mediaType'' = Some (JStr m)
           \<and> map_of ps ''name'' = Some (get_prop (get_prop n ''file'') ''name'')
           \<and> map_of ps ''url'' = Some (get_prop (get_prop n ''file'') ''permalink_public'')
           \<and> map_of ps ''type'' = Some (JStr (if startsWith m ''video'' then ''Video'' else ''Image''))
           \<and> (truthy (get_prop (get_prop n ''file'') ''thumb_1024'')
                \<longrightarrow> map_of ps ''preview'' = Some (get_prop (get_prop n ''file'') ''thumb_1024''))
           \<and> (\<not> truthy (get_prop (get_prop n ''file'') ''thumb_1024'')
                \<longrightarrow> ''preview'' \<notin> fst ` set ps)"
  using assms(1-3) parseFile_media[OF assms(4-6)]
  by (auto simp: parse_media_def Let_def)

lemma parse_media_neither:
  assumes "get_prop n ''text'' = JStr t" and "\<not> isUrl L (strip_ends t)"
    and "\<not> truthy (get_prop n ''file'') \<or> parseFile (get_prop n ''file'') = Inr JNull"
  shows "parse_media L W n (JObj kvs) = Inr (JObj kvs)"
  using assms by (auto simp: parse_media_def Let_def)

lemma parse_note_object:
  assumes "map_of kvs ''object'' = Some (JObj ps)" and "k \<noteq> ''context''"
  shows "get_prop (get_prop (parse_note L W n (JObj kvs)) ''object'') k = get_prop (JObj ps) k
       \<and> (has_prop (get_prop (parse_note L W n (JObj kvs)) ''object'') k \<longleftrightarrow> k \<in> fst ` set ps)"
  using assms by (auto simp: parse_note_def Let_def has_prop_def fst_set_assign)

lemma parse_note_fallback:
  assumes "map_of kvs ''object'' = None" and "\<not> isEmpty (get_prop n ''content'')"
  shows "get_prop (get_prop (parse_note L W n (JObj kvs)) ''object'') ''content'' = get_prop n ''text''
       \<and> get_prop (get_prop (parse_note L W n (JObj kvs)) ''object'') ''type'' = JStr ''Note''"
  using assms by (auto simp: parse_note_def Let_def)

lemma parseFile_other:
  assumes "get_prop file ''mimetype'' = JStr m"
    and "\<not> startsWith m ''image''" and "\<not> startsWith m ''video''"
  shows "parseFile file = Inr JNull"
  using assms by (simp add: parseFile_def)

lemma parse_media_rejected:
  assumes "get_prop n ''text'' = JStr t" and "isUrl L (strip_ends t)"
    and "fileInfo W (strip_ends t) = Inl e"
  shows "parse_media L W n a = Inl e"
  using assms by (simp add: parse_media_def Let_def)

lemma parse_with_text:
  assumes "get_prop (cleanNulls L event) ''text'' = JStr t" and "t \<noteq> []"
    and "\<not> truthy (js_or (get_prop (cleanNulls L event) ''thread_ts'')
                          (get_prop (cleanNulls L event) ''ts''))
         \<or> (\<exists>s. js_or (get_prop (cleanNulls L event) ''thread_ts'')
                       (get_prop (cleanNulls L event) ''ts'') = JStr s)"
  shows "\<exists>kvs. map_of kvs ''object'' = None
           \<and> parse P L W event =
               (case parse_media L W (cleanNulls L event) (JObj kvs) of
                  Inl e \<Rightarrow> Rejected e
                | Inr a \<Rightarrow> Resolved (parse_note L W (cleanNulls L event) a))"
proof -
  let ?n = "cleanNulls L event"
  have tr: "truthy ?n" "\<not> isEmpty ?n"
    using assms(1) by (cases ?n; auto)+
  have tx: "truthy (get_prop ?n ''text'')" using assms(1,2) by simp
  have "\<exists>a0. createActivityStream P L W ?n = Inr a0"
    using assms(3) by (auto simp: createActivityStream_def Let_def)
  then obtain a0 where a0: "createActivityStream P L W ?n = Inr a0" ..
  from createActivityStream_shape[OF a0] obtain kvs0 where
    sh: "a0 = JObj kvs0" and no: "map_of kvs0 ''object'' = None"
    by auto
  show ?thesis
    apply (rule exI[of _ "assign (assign kvs0 ''actor'' (actor_of ?n)) ''target'' (target_of ?n)"])
    using tr tx a0 sh no by (simp add: parse_def Let_def)
qed

text \<open>
  Claim C5, as amended. Take a message whose cleaned form has a non-empty string as
  \<open>text\<close> and whose \<open>thread_ts || ts\<close> is falsy or a string, and let \<open>url\<close> be the text
  without its first and last character.
  \<^enum> If \<open>url\<close> is a URL and \<open>fileInfo\<close> resolves with an object whose \<open>mimetype\<close> is a
    string, \<open>parse\<close> resolves with a stream whose object has that \<open>mediaType\<close>, the
    \<open>url\<close>, and the type Image for \<open>image/\<close>, Video for \<open>video/\<close>, \<open>null\<close> for any
    other mimetype.
  \<^enum> If \<open>url\<close> is a URL and \<open>fileInfo\<close> rejects, \<open>parse\<close> rejects with the same error.
  \<^enum> If \<open>url\<close> is not a URL, \<open>file\<close> is truthy with a string \<open>mimetype\<close> that starts
    with \<open>image\<close> or \<open>video\<close>, and the \<open>comment\<close> of its \<open>initial_comment\<close> (of the
    first one, for an array) can be read, \<open>parse\<close> resolves with a stream whose object
    carries the file's \<open>mediaType\<close>, \<open>name\<close>, \<open>url\<close> (its \<open>permalink_public\<close>), the
    type Video or Image, and a \<open>preview\<close> (the \<open>thumb_1024\<close>) exactly when the file has
    a truthy \<open>thumb_1024\<close>.
  \<^enum> If \<open>url\<close> is not a URL, \<open>file\<close> is falsy or has a string \<open>mimetype\<close> that starts
    with neither \<open>image\<close> nor \<open>video\<close>, and the \<open>content\<close> of the message is not
    empty (\<open>''\<close>, \<open>[]\<close>, \<open>{}\<close>), \<open>parse\<close> resolves with a stream whose object is a
    Note with the text as \<open>content\<close>.

  Nothing is stated for the other cases (an image or video file whose \<open>initial_comment\<close>
  cannot be read, a \<open>mimetype\<close> that is not a string, an empty \<open>content\<close>).
\<close>

theorem parse_object_by_kind:
  assumes "get_prop (cleanNulls L event) ''text'' = JStr t" and "t \<noteq> []"
    and "\<not> truthy (js_or (get_prop (cleanNulls L event) ''thread_ts'')
                          (get_prop (cleanNulls L event) ''ts''))
         \<or> (\<exists>s. js_or (get_prop (cleanNulls L event) ''thread_ts'')
                       (get_prop (cleanNulls L event) ''ts'') = JStr s)"
  shows "(\<forall>infos m. isUrl L (strip_ends t) \<and> fileInfo W (strip_ends t) = Inr infos
              \<and> member infos ''mimetype'' = Inr (JStr m)
           \<longrightarrow> (\<exists>a. parse P L W event = Resolved a
                 \<and> get_prop (get_prop a ''object'') ''type'' =
                     (if startsWith m ''image/'' then JStr ''Image''
                      else if startsWith m ''video/'' then JStr ''Video'' else JNull)
                 \<and> get_prop (get_prop a ''object'') ''url'' = JStr (strip_ends t)
                 \<and> get_prop (get_prop a ''object'') ''mediaType'' = JStr m))
       \<and> (\<forall>e. isUrl L (strip_ends t) \<and> fileInfo W (strip_ends t) = Inl e
           \<longrightarrow> parse P L W event = Rejected e)
       \<and> (\<forall>m c. \<not> isUrl L (strip_ends t) \<and> truthy (get_prop (cleanNulls L event) ''file'')
              \<and> get_prop (get_prop (cleanNulls L event) ''file'') ''mimetype'' = JStr m
              \<and> (startsWith m ''image'' \<or> startsWith m ''video'')
              \<and> initial_comment_of (get_prop (cleanNulls L event) ''file'') = Inr c
           \<longrightarrow> (\<exists>a. parse P L W event = Resolved a
                 \<and> get_prop (get_prop a ''object'') ''mediaType'' = JStr m
                 \<and> get_prop (get_prop a ''object'') ''name'' =
                     get_prop (get_prop (cleanNulls L event) ''file'') ''name''
                 \<and> get_prop (get_prop a ''object'') ''url'' =
                     get_prop (get_prop (cleanNulls L event) ''file'') ''permalink_public''
                 \<and> get_prop (get_prop a ''object'') ''type'' =
                     JStr (if startsWith m ''video'' then ''Video'' else ''Image'')
                 \<and> (if truthy (get_prop (get_prop (cleanNulls L event) ''file'') ''thumb_1024'')
                    then get_prop (get_prop a ''object'') ''preview'' =
                           get_prop (get_prop (cleanNulls L event) ''file'') ''thumb_1024''
                    else \<not> has_prop (get_prop a ''object'') ''preview'')))
       \<and> (\<not> isUrl L (strip_ends t)
            \<and> (\<not> truthy (get_prop (cleanNulls L event) ''file'')
                \<or> (\<exists>m. get_prop (get_prop (cleanNulls L event) ''file'') ''mimetype'' = JStr m
                        \<and> \<not> startsWith m ''image'' \<and> \<not> startsWith m ''video''))
            \<and> \<not> isEmpty (get_prop (cleanNulls L event) ''content'')
           \<longrightarrow> (\<exists>a. parse P L W event = Resolved a
                 \<and> get_prop (get_prop a ''object'') ''content'' = JStr t
                 \<and> get_prop (get_prop a ''object'') ''type'' = JStr ''Note''))"
proof -
  let ?n = "cleanNulls L event"
  from parse_with_text[OF assms] obtain kvs where
    no: "map_of kvs ''object'' = None" and
    p: "parse P L W event =
               (case parse_media L W ?n (JObj kvs) of
                  Inl e \<Rightarrow> Rejected e
                | Inr a \<Rightarrow> Resolved (parse_note L W ?n a))"
    by blast
  have A: "\<exists>a. parse P L W event = Resolved a
                 \<and> get_prop (get_prop a ''object'') ''type'' =
                     (if startsWith m ''image/'' then JStr ''Image''
                      else if startsWith m ''video/'' then JStr ''Video'' else JNull)
                 \<and> get_prop (get_prop a ''object'') ''url'' = JStr (strip_ends t)
                 \<and> get_prop (get_prop a ''object'') ''mediaType'' = JStr m"
    if "isUrl L (strip_ends t)" "fileInfo W (strip_ends t) = Inr infos"
       "member infos ''mimetype'' = Inr (JStr m)" for infos m
  proof -
    note pm = parse_media_url[OF assms(1) that, of kvs]
    have ob: "map_of (assign kvs ''object'' (JObj
                  [(''id'', js_or (get_prop ?n ''eventID'') (JStr (createIdentifier W))),
                   (''mediaType'', JStr m),
                   (''type'', if startsWith m ''image/'' then JStr ''Image''
                              else if startsWith m ''video/'' then JStr ''Video'' else JNull),
                   (''url'', JStr (strip_ends t))])) ''object'' = Some (JObj
                  [(''id'', js_or (get_prop ?n ''eventID'') (JStr (createIdentifier W))),
                   (''mediaType'', JStr m),
                   (''type'', if startsWith m ''image/'' then JStr ''Image''
                              else if startsWith m ''video/'' then JStr ''Video'' else JNull),
                   (''url'', JStr (strip_ends t))])"
      by simp
    show ?thesis
      using parse_note_object[OF ob, of "''type''" L W ?n]
        parse_note_object[OF ob, of "''url''" L W ?n]
        parse_note_object[OF ob, of "''mediaType''" L W ?n]
      by (simp add: p pm)
  qed
  have A': "parse P L W event = Rejected e"
    if "isUrl L (strip_ends t)" "fileInfo W (strip_ends t) = Inl e" for e
    by (simp add: p parse_media_rejected[OF assms(1) that])
  have B: "\<exists>a. parse P L W event = Resolved a
                 \<and> get_prop (get_prop a ''object'') ''mediaType'' = JStr m
                 \<and> get_prop (get_prop a ''object'') ''name'' =
                     get_prop (get_prop ?n ''file'') ''name''
                 \<and> get_prop (get_prop a ''object'') ''url'' =
                     get_prop (get_prop ?n ''file'') ''permalink_public''
                 \<and> get_prop (get_prop a ''object'') ''type'' =
                     JStr (if startsWith m ''video'' then ''Video'' else ''Image'')
                 \<and> (if truthy (get_prop (get_prop ?n ''file'') ''thumb_1024'')
                    then get_prop (get_prop a ''object'') ''preview'' =
                           get_prop (get_prop ?n ''file'') ''thumb_1024''
                    else \<not> has_prop (get_prop a ''object'') ''preview'')"
    if "\<not> isUrl L (strip_ends t)" "truthy (get_prop ?n ''file'')"
       "get_prop (get_prop ?n ''file'') ''mimetype'' = JStr m"
       "startsWith m ''image'' \<or> startsWith m ''video''"
       "initial_comment_of (get_prop ?n ''file'') = Inr c" for m c
  proof -
    from parse_media_file[OF assms(1) that, of W kvs] obtain ps where
      pm: "parse_media L W ?n (JObj kvs) = Inr (JObj (assign kvs ''object'' (JObj ps)))" and
      f: "map_of ps ''mediaType'' = Some (JStr m)"
         "map_of ps ''name'' = Some (get_prop (get_prop ?n ''file'') ''name'')"
         "map_of ps ''url'' = Some (get_prop (get_prop ?n ''file'') ''permalink_public'')"
         "map_of ps ''type'' = Some (JStr (if startsWith m ''video'' then ''Video'' else ''Image''))"
         "truthy (get_prop (get_prop ?n ''file'') ''thumb_1024'')
                \<longrightarrow> map_of ps ''preview'' = Some (get_prop (get_prop ?n ''file'') ''thumb_1024'')"
         "\<not> truthy (get_prop (get_prop ?n ''file'') ''thumb_1024'')
                \<longrightarrow> ''preview'' \<notin> fst ` set ps"
      by blast
    have ob: "map_of (assign kvs ''object'' (JObj ps)) ''object'' = Some (JObj ps)"
      by simp
    show ?thesis
      using parse_note_object[OF ob, of "''type''" L W ?n]
        parse_note_object[OF ob, of "''url''" L W ?n]
        parse_note_object[OF ob, of "''mediaType''" L W ?n]
        parse_note_object[OF ob, of "''name''" L W ?n]
        parse_note_object[OF ob, of "''preview''" L W ?n] f
      by (simp add: p pm)
  qed
  have C: "\<exists>a. parse P L W event = Resolved a
                 \<and> get_prop (get_prop a ''object'') ''content'' = JStr t
                 \<and> get_prop (get_prop a ''object'') ''type'' = JStr ''Note''"
    if "\<not> isUrl L (strip_ends t)"
       "\<not> truthy (get_prop ?n ''file'')
        \<or> (\<exists>m. get_prop (get_prop ?n ''file'') ''mimetype'' = JStr m
                \<and> \<not> startsWith m ''image'' \<and> \<not> startsWith m ''video'')"
       "\<not> isEmpty (get_prop ?n ''content'')"
  proof -
    from that(2) have "\<not> truthy (get_prop ?n ''file'') \<or> parseFile (get_prop ?n ''file'') = Inr JNull"
      using parseFile_other by blast
    note pm = parse_media_neither[OF assms(1) that(1) this, of W kvs]
    show ?thesis
      using parse_note_fallback[OF no that(3), of L W] assms(1)
      by (simp add: p pm)
  qed
  show ?thesis
    using A A' B C by blast
qed

text \<open>
  Claim C5 as stated, refuted: the Note is guarded by
  \<open>!R.isEmpty(normalized.content)\<close>, so a text message whose \<open>content\<close> is the empty
  string gets no object at all.
\<close>

theorem parse_no_note_for_empty_content:
  "parse example_parser example_lib example_world empty_content_message =
     Resolved (JObj
       [(''@context'', JStr ''https://www.w3.org/ns/activitystreams''),
        (''generator'', JObj [(''id'', JStr ''service-1''), (''name'', JStr ''slack''),
                              (''type'', JStr ''Service'')]),
        (''published'', JNum (Fin 1500000000)), (''type'', JStr ''Create''),
        (''actor'', JObj [(''id'', JUndefined), (''name'', JUndefined),
                          (''type'', JStr ''Person'')]),
        (''target'', JObj [(''id'', JUndefined), (''name'', JUndefined),
                           (''type'', JStr ''Group'')])])
   \<and> get_prop empty_content_message ''text'' = JStr ''hello''
   \<and> get_prop empty_content_message ''file'' = JUndefined
   \<and> \<not> isUrl example_lib (strip_ends ''hello'')"
  by (simp add: model_defs example_defs)

text \<open>
  Outside the amended claim: an image file that comes without an \<open>initial_comment\<close>. The
  code reads \<open>attachment.initial_comment.comment\<close> unguarded, and \<open>parse\<close> rejects.
\<close>

lemma parse_rejects_file_without_comment:
  "parse example_parser example_lib example_world plain_file_message = Rejected TypeError"
  by (simp add: model_defs example_defs)

text \<open>A URL, a file and a plain text.\<close>

theorem parse_object_by_kind_witness:
  "(\<exists>a. parse example_parser example_lib example_world image_message = Resolved a
       \<and> get_prop (get_prop a ''object'') ''type'' = JStr ''Image''
       \<and> get_prop (get_prop a ''object'') ''url'' = JStr ''https://img.example/a.png''
       \<and> get_prop (get_prop a ''object'') ''mediaType'' = JStr ''image/png'')
   \<and> (\<exists>a. parse example_parser example_lib example_world file_message = Resolved a
       \<and> get_prop (get_prop a ''object'') ''mediaType'' = JStr ''video/mp4''
       \<and> get_prop (get_prop a ''object'') ''name'' = JStr ''clip.mp4''
       \<and> get_prop (get_prop a ''object'') ''url'' = JStr ''https://files.example/clip''
       \<and> get_prop (get_prop a ''object'') ''type'' = JStr ''Video''
       \<and> get_prop (get_prop a ''object'') ''preview'' = JStr ''https://files.example/clip.png'')
   \<and> (\<exists>a. parse example_parser example_lib example_world note_message = Resolved a
       \<and> get_prop (get_prop a ''object'') ''content'' = JStr ''hello''
       \<and> get_prop (get_prop a ''object'') ''type'' = JStr ''Note'')"
proof -
  have i: "get_prop (cleanNulls example_lib image_message) ''text''
             = JStr ''<https://img.example/a.png>''"
          "''<https://img.example/a.png>'' \<noteq> []"
          "\<not> truthy (js_or (get_prop (cleanNulls example_lib image_message) ''thread_ts'')
                           (get_prop (cleanNulls example_lib image_message) ''ts''))
           \<or> (\<exists>s. js_or (get_prop (cleanNulls example_lib image_message) ''thread_ts'')
                         (get_prop (cleanNulls example_lib image_message) ''ts'') = JStr s)"
    by (simp_all add: model_defs example_defs)
  have f: "get_prop (cleanNulls example_lib file_message) ''text'' = JStr ''a clip''"
          "''a clip'' \<noteq> []"
          "\<not> truthy (js_or (get_prop (cleanNulls example_lib file_message) ''thread_ts'')
                           (get_prop (cleanNulls example_lib file_message) ''ts''))
           \<or> (\<exists>s. js_or (get_prop (cleanNulls example_lib file_message) ''thread_ts'')
                         (get_prop (cleanNulls example_lib file_message) ''ts'') = JStr s)"
    by (simp_all add: model_defs example_defs)
  have n: "get_prop (cleanNulls example_lib note_message) ''text'' = JStr ''hello''"
          "''hello'' \<noteq> []"
          "\<not> truthy (js_or (get_prop (cleanNulls example_lib note_message) ''thread_ts'')
                           (get_prop (cleanNulls example_lib note_message) ''ts''))
           \<or> (\<exists>s. js_or (get_prop (cleanNulls example_lib note_message) ''thread_ts'')
                         (get_prop (cleanNulls example_lib note_message) ''ts'') = JStr s)"
    by (simp_all add: model_defs example_defs)
  have 1: "\<exists>a. parse example_parser example_lib example_world image_message = Resolved a
       \<and> get_prop (get_prop a ''object'') ''type'' = JStr ''Image''
       \<and> get_prop (get_prop a ''object'') ''url'' = JStr ''https://img.example/a.png''
       \<and> get_prop (get_prop a ''object'') ''mediaType'' = JStr ''image/png''"
    using parse_object_by_kind[OF i]
    by (simp add: model_defs example_defs)
  have 2: "\<exists>a. parse example_parser example_lib example_world file_message = Resolved a
       \<and> get_prop (get_prop a ''object'') ''mediaType'' = JStr ''video/mp4''
       \<and> get_prop (get_prop a ''object'') ''name'' = JStr ''clip.mp4''
       \<and> get_prop (get_prop a ''object'') ''url'' = JStr ''https://files.example/clip''
       \<and> get_prop (get_prop a ''object'') ''type'' = JStr ''Video''
       \<and> get_prop (get_prop a ''object'') ''preview'' = JStr ''https://files.example/clip.png''"
    using parse_object_by_kind[OF f]
    by (simp add: model_defs example_defs)
  have 3: "\<exists>a. parse example_parser example_lib example_world note_message = Resolved a
       \<and> get_prop (get_prop a ''object'') ''content'' = JStr ''hello''
       \<and> get_prop (get_prop a ''object'') ''type'' = JStr ''Note''"
    using parse_object_by_kind[OF n]
    by (simp add: model_defs example_defs)
  from 1 2 3 show ?thesis by blast
qed

subsection \<open>The adapter: constructor, router, connection\<close>

lemma js_or_JNull_not_empty: "js_or v JNull \<noteq> JStr []"
  by (cases v) (auto simp: js_or_def)

lemma member_not_Error: "member v k \<noteq> Inl (Error msg)"
  by (cases v) (auto simp: member_def)

text \<open>
  Claim C9. The constructor never throws \<open>Token should exist.\<close>: the token it compares
  with the empty string is \<open>obj && obj.token || null\<close>, which is never the empty string.
\<close>

theorem Adapter_token_error_unreachable:
  "Adapter v4 obj \<noteq> Inl (Error ''Token should exist.'')
   \<and> js_or (js_and obj (get_prop obj ''token'')) JNull \<noteq> JStr []"
proof -
  have t: "js_or (js_and obj (get_prop obj ''token'')) JNull \<noteq> JStr []"
    by (rule js_or_JNull_not_empty)
  have "Adapter v4 obj \<noteq> Inl (Error ''Token should exist.'')"
    using t member_not_Error[of obj "''webhookURL''" "''Token should exist.''"]
    by (auto simp: Adapter_def Let_def split: sum.splits jsval.splits)
  with t show ?thesis by simp
qed

text \<open>Options with an empty token: the adapter is built, its token is \<open>null\<close>.\<close>

theorem Adapter_token_error_unreachable_witness:
  "Adapter ''110ec58a-a0f2-4ac4-8393-c866d813b8d1'' empty_token_options
     = Inr (example_adapter \<lparr> token := JNull \<rparr>)
   \<and> Adapter ''110ec58a-a0f2-4ac4-8393-c866d813b8d1'' empty_token_options
       \<noteq> Inl (Error ''Token should exist.'')"
  using Adapter_token_error_unreachable
          [of "''110ec58a-a0f2-4ac4-8393-c866d813b8d1''" empty_token_options]
  by (simp add: adapter_defs model_defs example_defs)

lemma user_state:
  "webhookServer (fst (user K A key c)) = webhookServer A
   \<and> connected (fst (user K A key c)) = connected A
   \<and> session (fst (user K A key c)) = session A
   \<and> router (fst (user K A key c)) = router A
   \<and> sid (fst (user K A key c)) = sid A"
  by (auto simp: user_def Let_def split: sum.splits)

lemma on_incoming_state:
  "webhookServer (fst (on_incoming K A m)) = webhookServer A
   \<and> connected (fst (on_incoming K A m)) = connected A
   \<and> session (fst (on_incoming K A m)) = session A
   \<and> router (fst (on_incoming K A m)) = router A
   \<and> sid (fst (on_incoming K A m)) = sid A"
proof (cases "member m ''from''")
  case (Inl e)
  then show ?thesis by (simp add: on_incoming_def)
next
  case (Inr sender)
  obtain A' r where u: "user K A sender True = (A', r)" by (cases "user K A sender True")
  have A': "webhookServer A' = webhookServer A \<and> connected A' = connected A
            \<and> session A' = session A \<and> router A' = router A \<and> sid A' = sid A"
    using user_state[of K A sender True] u by simp
  have "fst (on_incoming K A m) = A'"
    using Inr u by (auto simp: on_incoming_def split: sum.splits)
  with A' show ?thesis by simp
qed

lemma step_webhook:
  "(webhookServer (step L K A x) = None) = (webhookServer A = None)"
proof (cases x)
  case Connect
  then show ?thesis
    by (auto simp: connect_def Let_def split: if_splits sum.splits jsval.splits)
next
  case Disconnect
  then show ?thesis by (auto simp: disconnect_def Let_def split: option.splits)
next
  case (Deliver m)
  then show ?thesis using on_incoming_state[of K A m] by simp
next
  case (Send d)
  then show ?thesis by simp
qed

lemma run_webhook:
  "(webhookServer (run L K A xs) = None) = (webhookServer A = None)"
  unfolding run_def
  by (induction xs arbitrary: A) (simp_all add: step_webhook)

lemma Adapter_webhook:
  assumes "Adapter v4 obj = Inr A"
  shows "(webhookServer A = None) = (\<not> truthy (get_prop obj ''http''))"
  using assms
  by (auto simp: Adapter_def Let_def split: if_splits sum.splits jsval.splits)

text \<open>
  Claim C10. For an adapter built from the options \<open>obj\<close>, at any later time:
  \<open>getRouter\<close> returns \<open>null\<close> exactly when \<open>obj.http\<close> was given (truthy), which is
  exactly when the adapter has a WebHookServer; and when it returns a router, it is the
  adapter's own and there is no WebHookServer.
\<close>

theorem getRouter_null_iff:
  assumes "Adapter v4 obj = Inr A"
  shows "(getRouter (run L K A xs) = None \<longleftrightarrow> truthy (get_prop obj ''http''))
       \<and> (webhookServer (run L K A xs) \<noteq> None \<longleftrightarrow> truthy (get_prop obj ''http''))
       \<and> (getRouter (run L K A xs) \<noteq> None \<longrightarrow>
            getRouter (run L K A xs) = Some (router (run L K A xs))
            \<and> webhookServer (run L K A xs) = None)"
  using Adapter_webhook[OF assms] run_webhook[of L K A xs]
  by (auto simp: getRouter_def)

text \<open>Without \<open>http\<close> options the router is returned; with them, \<open>null\<close>.\<close>

theorem getRouter_null_iff_witness:
  "Adapter ''110ec58a-a0f2-4ac4-8393-c866d813b8d1'' example_options = Inr example_adapter
   \<and> getRouter (run example_lib example_kik example_adapter [Connect])
       = Some [(''/'', kik_options)]
   \<and> (\<exists>A. Adapter ''110ec58a-a0f2-4ac4-8393-c866d813b8d1'' http_options = Inr A
        \<and> getRouter (run example_lib example_kik A [Connect]) = None)"
proof -
  have a: "Adapter ''110ec58a-a0f2-4ac4-8393-c866d813b8d1'' example_options = Inr example_adapter"
    by (simp add: adapter_defs model_defs example_defs)
  obtain A where b: "Adapter ''110ec58a-a0f2-4ac4-8393-c866d813b8d1'' http_options = Inr A"
    by (simp add: adapter_defs model_defs example_defs)
  have h: "\<not> truthy (get_prop example_options ''http'')" "truthy (get_prop http_options ''http'')"
    by (simp_all add: example_defs)
  have r: "router (run example_lib example_kik example_adapter [Connect]) = [(''/'', kik_options)]"
    by (simp add: adapter_defs model_defs example_defs)
  from getRouter_null_iff[OF a, of example_lib example_kik "[Connect]"] h r
  have 1: "getRouter (run example_lib example_kik example_adapter [Connect])
             = Some [(''/'', kik_options)]"
    by auto
  from getRouter_null_iff[OF b, of example_lib example_kik "[Connect]"] h
  have 2: "getRouter (run example_lib example_kik A [Connect]) = None"
    by simp
  from a b 1 2 show ?thesis by blast
qed

lemma connect_connected:
  assumes "connected A"
  shows "connect L K A = (A, Inr (connected_event A))"
  using assms by (simp add: connect_def)

lemma connect_success:
  assumes "snd (connect L K A) = Inr v"
  shows "connected (fst (connect L K A))"
  using assms
  by (auto simp: connect_def Let_def split: if_splits sum.splits jsval.splits)

lemma disconnect_connected: "connected (fst (disconnect A))"
  by (auto simp: disconnect_def Let_def split: option.splits)

lemma step_connected:
  assumes "connected A"
  shows "connected (step L K A x)"
proof (cases x)
  case Connect
  then show ?thesis using assms by (simp add: connect_connected)
next
  case Disconnect
  then show ?thesis by (simp add: disconnect_connected)
next
  case (Deliver m)
  then show ?thesis using assms on_incoming_state[of K A m] by simp
next
  case (Send d)
  then show ?thesis using assms by simp
qed

lemma run_connected:
  assumes "connected A"
  shows "connected (run L K A xs)"
  using assms unfolding run_def
  by (induction xs arbitrary: A) (simp_all add: step_connected)

text \<open>
  Claim C8. \<open>disconnect\<close> leaves the flag \<open>connected\<close> set to true, so a \<open>connect\<close>
  after a \<open>disconnect\<close> returns \<open>{type: 'connected', serviceID}\<close> and changes nothing.
  Once a \<open>connect\<close> has succeeded, after any sequence of calls and deliveries the flag is
  still true, and \<open>connect\<close> returns \<open>{type: 'connected', serviceID}\<close> with the state
  (session and router included) as it was.
\<close>

theorem disconnect_keeps_connected:
  "connected (fst (disconnect A))
   \<and> connect L K (fst (disconnect A)) =
       (fst (disconnect A), Inr (connected_event (fst (disconnect A))))
   \<and> (\<forall>v xs. snd (connect L K A) = Inr v \<longrightarrow>
        connected (run L K (fst (connect L K A)) xs)
        \<and> connect L K (run L K (fst (connect L K A)) xs) =
            (run L K (fst (connect L K A)) xs,
             Inr (connected_event (run L K (fst (connect L K A)) xs))))"
  using disconnect_connected connect_connected connect_success run_connected
  by blast

text \<open>Connect, disconnect, connect again: one session, one mount, still connected.\<close>

theorem disconnect_keeps_connected_witness:
  "snd (connect example_lib example_kik example_adapter)
     = Inr (JObj [(''type'', JStr ''connected''), (''serviceID'', JStr ''service-1'')])
   \<and> connected (run example_lib example_kik (fst (connect example_lib example_kik example_adapter))
                    [Disconnect])
   \<and> connect example_lib example_kik
        (run example_lib example_kik (fst (connect example_lib example_kik example_adapter))
           [Disconnect])
       = (connected_adapter,
          Inr (JObj [(''type'', JStr ''connected''), (''serviceID'', JStr ''service-1'')]))"
proof -
  have c: "snd (connect example_lib example_kik example_adapter)
             = Inr (JObj [(''type'', JStr ''connected''), (''serviceID'', JStr ''service-1'')])"
    by (simp add: adapter_defs model_defs example_defs)
  have r: "run example_lib example_kik (fst (connect example_lib example_kik example_adapter))
             [Disconnect] = connected_adapter"
    by (simp add: adapter_defs model_defs example_defs)
  have e: "connected_event connected_adapter
             = JObj [(''type'', JStr ''connected''), (''serviceID'', JStr ''service-1'')]"
    by (simp add: adapter_defs example_defs)
  from disconnect_keeps_connected[of example_adapter example_lib example_kik] c r e
  show ?thesis by (metis (no_types, lifting))
qed

subsection \<open>The adapter: listen\<close>

lemma on_incoming_emit:
  assumes "on_incoming K A m = (A', cs)" and "Emit v \<in> set cs"
  shows "\<exists>u n p. cs = [CallNormalize m u, CallParse n, CallValidate p, Emit v, Next]
           \<and> parser_normalize K m u = Inr n \<and> parser_parse K n = Inr p
           \<and> parser_validate K p = Inr v \<and> truthy v"
  using assms
  by (auto simp: on_incoming_def split: sum.splits prod.splits if_splits)

lemma on_incoming_null:
  assumes "on_incoming K A m = (A', cs)" and "CallValidate p \<in> set cs"
    and "parser_validate K p = Inr JNull"
  shows "Emit v \<notin> set cs"
  using assms
  by (auto simp: on_incoming_def split: sum.splits prod.splits if_splits)

lemma deliver_emit:
  assumes "deliver K A ms = (A', cs)" and "cs = pre @ Emit v # post"
  shows "\<exists>pre' m u n p. pre = pre' @ [CallNormalize m u, CallParse n, CallValidate p]
           \<and> m \<in> set ms
           \<and> parser_normalize K m u = Inr n \<and> parser_parse K n = Inr p
           \<and> parser_validate K p = Inr v \<and> truthy v"
  using assms
proof (induction ms arbitrary: A A' cs pre)
  case Nil
  then show ?case by simp
next
  case (Cons m ms)
  obtain A1 c1 where o: "on_incoming K A m = (A1, c1)" by (cases "on_incoming K A m")
  obtain A2 c2 where d: "deliver K A1 ms = (A2, c2)" by (cases "deliver K A1 ms")
  from Cons.prems o d have cs: "c1 @ c2 = pre @ Emit v # post" by simp
  then consider (left) us where "c1 = pre @ Emit v # us"
    | (right) us where "pre = c1 @ us" "c2 = us @ Emit v # post"
    by (auto simp: append_eq_append_conv2 Cons_eq_append_conv append_eq_Cons_conv)
  then show ?case
  proof cases
    case left
    then have "Emit v \<in> set c1" by simp
    from on_incoming_emit[OF o this] obtain u n p where
      c1: "c1 = [CallNormalize m u, CallParse n, CallValidate p, Emit v, Next]" and
      r: "parser_normalize K m u = Inr n" "parser_parse K n = Inr p"
         "parser_validate K p = Inr v" "truthy v"
      by blast
    from left c1 have "pre = [CallNormalize m u, CallParse n, CallValidate p]"
      by (auto simp: Cons_eq_append_conv)
    with r show ?thesis by auto
  next
    case right
    from Cons.IH[OF d right(2)] obtain pre' m' u n p where
      "us = pre' @ [CallNormalize m' u, CallParse n, CallValidate p]" "m' \<in> set ms"
      "parser_normalize K m' u = Inr n" "parser_parse K n = Inr p"
      "parser_validate K p = Inr v" "truthy v"
      by blast
    with right(1) show ?thesis
      by (intro exI[of _ "c1 @ pre'"] exI[of _ m'] exI[of _ u] exI[of _ n] exI[of _ p]) simp
  qed
qed

text \<open>
  Claim C2. In the calls \<open>listen\<close> makes for the messages the platform delivers, every
  \<open>observer.next(v)\<close> comes right after the calls of \<open>normalize\<close>, \<open>parse\<close> and
  \<open>validate\<close>, in this order, for one of the messages, each fed with the result of the one
  before, and \<open>v\<close> is the truthy value \<open>validate\<close> resolved with. For a message on which
  \<open>validate\<close> resolves with \<open>null\<close> nothing is emitted.
\<close>

theorem listen_emits_after_pipeline:
  "(\<forall>A' cs pre v post. listen K A ms = Inr (A', cs) \<and> cs = pre @ Emit v # post \<longrightarrow>
      (\<exists>pre' m u n p. pre = pre' @ [CallNormalize m u, CallParse n, CallValidate p]
           \<and> m \<in> set ms
           \<and> parser_normalize K m u = Inr n \<and> parser_parse K n = Inr p
           \<and> parser_validate K p = Inr v \<and> truthy v))
   \<and> (\<forall>A' cs p v. on_incoming K A m = (A', cs) \<and> CallValidate p \<in> set cs
          \<and> parser_validate K p = Inr JNull \<longrightarrow> Emit v \<notin> set cs)"
proof -
  have 1: "\<exists>pre' m u n p. pre = pre' @ [CallNormalize m u, CallParse n, CallValidate p]
           \<and> m \<in> set ms
           \<and> parser_normalize K m u = Inr n \<and> parser_parse K n = Inr p
           \<and> parser_validate K p = Inr v \<and> truthy v"
    if "listen K A ms = Inr (A', cs)" "cs = pre @ Emit v # post" for A' cs pre v post
  proof -
    from that(1) have "deliver K A ms = (A', cs)"
      by (simp add: listen_def split: if_splits)
    from deliver_emit[OF this that(2)] show ?thesis .
  qed
  show ?thesis
    using 1 on_incoming_null by blast
qed

text \<open>A text message is emitted after the three calls; a receipt, validated to \<open>null\<close>, is not.\<close>

theorem listen_emits_after_pipeline_witness:
  "listen example_kik connected_adapter [incoming_text, incoming_receipt] =
     Inr (connected_adapter \<lparr> storeUsers := [(JStr ''ada'', ada_profile)] \<rparr>,
          [CallNormalize incoming_text ada_profile, CallParse incoming_text,
           CallValidate incoming_text, Emit incoming_text, Next,
           CallNormalize incoming_receipt ada_profile, CallParse incoming_receipt,
           CallValidate incoming_receipt, Next])
   \<and> (\<exists>m u n p. m \<in> set [incoming_text, incoming_receipt]
         \<and> parser_normalize example_kik m u = Inr n \<and> parser_parse example_kik n = Inr p
         \<and> parser_validate example_kik p = Inr incoming_text \<and> truthy incoming_text)"
proof -
  have l: "listen example_kik connected_adapter [incoming_text, incoming_receipt] =
     Inr (connected_adapter \<lparr> storeUsers := [(JStr ''ada'', ada_profile)] \<rparr>,
          [CallNormalize incoming_text ada_profile, CallParse incoming_text,
           CallValidate incoming_text]
          @ Emit incoming_text
          # [Next, CallNormalize incoming_receipt ada_profile, CallParse incoming_receipt,
             CallValidate incoming_receipt, Next])"
    by (simp add: adapter_defs model_defs example_defs)
  from listen_emits_after_pipeline[of example_kik connected_adapter
         "[incoming_text, incoming_receipt]"] l
  have "\<exists>pre' m u n p.
          [CallNormalize incoming_text ada_profile, CallParse incoming_text,
           CallValidate incoming_text]
            = pre' @ [CallNormalize m u, CallParse n, CallValidate p]
          \<and> m \<in> set [incoming_text, incoming_receipt]
          \<and> parser_normalize example_kik m u = Inr n \<and> parser_parse example_kik n = Inr p
          \<and> parser_validate example_kik p = Inr incoming_text \<and> truthy incoming_text"
    by blast
  then have "\<exists>m u n p. m \<in> set [incoming_text, incoming_receipt]
         \<and> parser_normalize example_kik m u = Inr n \<and> parser_parse example_kik n = Inr p
         \<and> parser_validate example_kik p = Inr incoming_text \<and> truthy incoming_text"
    by blast
  with l show ?thesis by simp
qed

subsection \<open>The adapter: send\<close>












end
